theory Spec2Isabelle
  imports Complex_Main "HOL-Library.Multiset" "HOL-Library.Char_ord" "HOL-Library.List_Lexorder"
begin

section \<open>Values shared by the two scripts\<close>

text \<open>
  Both scripts compute with numpy float64 columns. A float is a finite real number, one
  of the two infinities, or nan. The embedding does not round a finite result to the
  nearest float. It does keep what makes a float64 computation differ in kind from real
  arithmetic: a result too large becomes an infinity, a result too small becomes zero,
  and the operations on the special values are those of IEEE 754 (the sign of a zero is
  not kept).
\<close>

datatype np_float = Fin real | PInf | NInf | NaN

text \<open>
  The range of float64. A result of magnitude \<open>2^1024 - 2^970\<close> or more, halfway between
  the largest float and \<open>2^1024\<close>, becomes an infinity; a result of magnitude
  \<open>2^-1075\<close> or less, half the smallest positive float, becomes zero.
\<close>

definition overflow_threshold :: real where
  "overflow_threshold = 2 ^ 1024 - 2 ^ 970"

definition underflow_threshold :: real where
  "underflow_threshold = 1 / 2 ^ 1075"

definition to_float64 :: "real \<Rightarrow> np_float" where
  "to_float64 v =
     (if overflow_threshold \<le> v then PInf
      else if v \<le> - overflow_threshold then NInf
      else if \<bar>v\<bar> \<le> underflow_threshold then Fin 0
      else Fin v)"

text \<open>
  \<open>x ** y\<close> for two finite floats, as numpy computes it: anything to the power 0 is 1,
  zero to a negative power is inf, a negative base has a power only for an integral
  exponent and gives nan otherwise.
\<close>

definition np_power :: "real \<Rightarrow> real \<Rightarrow> np_float" where
  "np_power x y =
     (if y = 0 then Fin 1
      else if 0 < x then to_float64 (x powr y)
      else if x = 0 then (if 0 < y then Fin 0 else PInf)
      else if y \<in> \<int> then to_float64 ((if even \<lfloor>y\<rfloor> then 1 else - 1) * ((- x) powr y))
      else NaN)"

text \<open>The product and the sum of two floats; \<open>0 * inf\<close> and \<open>inf - inf\<close> are nan.\<close>

fun np_times :: "np_float \<Rightarrow> np_float \<Rightarrow> np_float" where
  "np_times (Fin x) (Fin y) = to_float64 (x * y)"
| "np_times NaN _ = NaN"
| "np_times _ NaN = NaN"
| "np_times PInf (Fin y) = (if 0 < y then PInf else if y < 0 then NInf else NaN)"
| "np_times NInf (Fin y) = (if 0 < y then NInf else if y < 0 then PInf else NaN)"
| "np_times (Fin x) PInf = (if 0 < x then PInf else if x < 0 then NInf else NaN)"
| "np_times (Fin x) NInf = (if 0 < x then NInf else if x < 0 then PInf else NaN)"
| "np_times PInf PInf = PInf"
| "np_times PInf NInf = NInf"
| "np_times NInf PInf = NInf"
| "np_times NInf NInf = PInf"

fun np_plus :: "np_float \<Rightarrow> np_float \<Rightarrow> np_float" where
  "np_plus (Fin x) (Fin y) =
     (if overflow_threshold \<le> x + y then PInf
      else if x + y \<le> - overflow_threshold then NInf
      else Fin (x + y))"
| "np_plus NaN _ = NaN"
| "np_plus _ NaN = NaN"
| "np_plus PInf NInf = NaN"
| "np_plus NInf PInf = NaN"
| "np_plus PInf _ = PInf"
| "np_plus _ PInf = PInf"
| "np_plus NInf _ = NInf"
| "np_plus _ NInf = NInf"

text \<open>
  \<open>Series.sum()\<close> of pandas: the default \<open>skipna=True\<close> leaves the nan entries out,
  and the sum of nothing is 0.
\<close>

definition series_sum :: "np_float list \<Rightarrow> np_float" where
  "series_sum xs = foldl np_plus (Fin 0) (filter (\<lambda>v. v \<noteq> NaN) xs)"

text \<open>numpy's true division of two finite floats: a zero divisor gives inf, -inf or nan.\<close>

definition np_divide :: "real \<Rightarrow> real \<Rightarrow> np_float" where
  "np_divide x y =
     (if y \<noteq> 0 then Fin (x / y)
      else if 0 < x then PInf
      else if x < 0 then NInf
      else NaN)"

text \<open>A finite float divided by a float: a quotient by an infinity is zero.\<close>

fun np_divide_by :: "real \<Rightarrow> np_float \<Rightarrow> np_float" where
  "np_divide_by x (Fin y) = (if y = 0 then np_divide x 0 else to_float64 (x / y))"
| "np_divide_by x PInf = Fin 0"
| "np_divide_by x NInf = Fin 0"
| "np_divide_by x NaN = NaN"

text \<open>
  The exceptions the two scripts can end with. \<open>AssertionError\<close> carries the
  message of the failed \<open>assert\<close>.
\<close>

datatype error =
    AssertionError string
  | ValueError string
  | AttributeError string
  | KeyError string
  | OverflowError string
  | EmptyDataError string

text \<open>
  An input file as the scripts see it: its name, the size \<open>os.stat\<close> reports, and
  what the reader (\<open>pd.read_csv\<close>, \<open>pd.read_json\<close>, \<open>float(open(..).read())\<close>)
  makes of its text when the file is not empty.
\<close>

record 'a input_file =
  path :: string
  st_size :: nat
  content :: 'a

text \<open>\<open>float(open(f).read())\<close>: the text of an empty file is no float literal.\<close>

definition read_float :: "real option input_file \<Rightarrow> error + real" where
  "read_float f =
     (if st_size f = 0 then Inl (ValueError ''could not convert string to float: '')
      else case content f of
             None \<Rightarrow> Inl (ValueError ''could not convert string to float'')
           | Some x \<Rightarrow> Inr x)"

text \<open>\<open>pd.read_csv\<close> raises \<open>EmptyDataError\<close> on a file of size zero.\<close>

definition read_csv :: "'r list input_file \<Rightarrow> error + 'r list" where
  "read_csv f =
     (if st_size f = 0 then Inl (EmptyDataError ''No columns to parse from file'')
      else Inr (content f))"

text \<open>\<open>pd.read_json\<close> raises \<open>ValueError\<close> on a file of size zero.\<close>

definition read_json :: "'p input_file \<Rightarrow> error + 'p" where
  "read_json f =
     (if st_size f = 0 then Inl (ValueError ''Expected object or value'')
      else Inr (content f))"

text \<open>
  \<open>sort_values(by=.., ascending=False)\<close>: rows in descending order of the key, nan
  last. Rows with equal keys are kept in their original order here; pandas leaves the
  order of ties to the sorting routine, and no statement below depends on it.
\<close>

fun precedes :: "np_float \<Rightarrow> np_float \<Rightarrow> bool" where
  "precedes NaN _ = False"
| "precedes _ NaN = True"
| "precedes NInf _ = False"
| "precedes _ NInf = True"
| "precedes _ PInf = False"
| "precedes PInf _ = True"
| "precedes (Fin x) (Fin y) = (y < x)"

fun insert_desc :: "('r \<Rightarrow> np_float) \<Rightarrow> 'r \<Rightarrow> 'r list \<Rightarrow> 'r list" where
  "insert_desc key x [] = [x]"
| "insert_desc key x (y # ys) =
     (if precedes (key y) (key x) then y # insert_desc key x ys else x # y # ys)"

definition sort_values_desc :: "('r \<Rightarrow> np_float) \<Rightarrow> 'r list \<Rightarrow> 'r list" where
  "sort_values_desc key xs = foldr (insert_desc key) xs []"

text \<open>The keys of a \<open>groupby\<close>: the distinct values of the column, sorted.\<close>

definition group_keys :: "('r \<Rightarrow> string) \<Rightarrow> 'r list \<Rightarrow> string list" where
  "group_keys col rows = sort (remdups (map col rows))"

definition get_group :: "('r \<Rightarrow> string) \<Rightarrow> string \<Rightarrow> 'r list \<Rightarrow> 'r list" where
  "get_group col k rows = filter (\<lambda>r. col r = k) rows"

text \<open>\<open>len(column.unique())\<close>\<close>

definition nunique :: "string list \<Rightarrow> nat" where
  "nunique xs = length (remdups xs)"

section \<open>calculate\_taxa\_probabilities.py\<close>

text \<open>
  One line of the Ts/Tv count file (columns \<open>Taxon\<close>, \<open>Read_ID\<close>, \<open>Ts\<close>, \<open>Tv\<close>)
  and the model parameters read from the JSON file.
\<close>

record mismatch_record =
  Taxon :: string
  Read_ID :: string
  Ts :: int
  Tv :: int

record model_params =
  ts_missing_val :: real
  tv_missing_val :: real
  delta_t :: real
  delta_v :: real

text \<open>
  A row of \<open>mismatch_df\<close> after \<open>reset_index\<close> and the added columns; column 3 is
  \<open>Posterior\<close>.
\<close>

record mismatch_row =
  Taxon_m :: string
  Ts_m :: real
  Tv_m :: real
  Posterior :: np_float
  Read_Count :: nat
  Total_Reads :: real
  Submatrix :: string
  Sample :: string

text \<open>
  The two aggregation lambdas of lines 53 and 54:
  \<open>sum(num) + ((read_count - num.count()) * (missing_val + 1))\<close>.
\<close>

definition agg_missing :: "nat \<Rightarrow> real \<Rightarrow> int list \<Rightarrow> real" where
  "agg_missing read_count missing_val num =
     real_of_int (sum_list num)
       + real_of_int (int read_count - int (length num)) * (missing_val + 1)"

definition make_mismatch_df ::
  "nat \<Rightarrow> model_params \<Rightarrow> real \<Rightarrow> string \<Rightarrow> string \<Rightarrow> mismatch_record list \<Rightarrow> mismatch_row list"
where
  "make_mismatch_df read_count params total_fastq_reads submatrix sample_name ts_tv_matrix =
     map (\<lambda>t.
            \<lparr> Taxon_m = t,
              Ts_m = agg_missing read_count (ts_missing_val params)
                       (map Ts (get_group Taxon t ts_tv_matrix)),
              Tv_m = agg_missing read_count (tv_missing_val params)
                       (map Tv (get_group Taxon t ts_tv_matrix)),
              Posterior = NaN,
              Read_Count = read_count,
              Total_Reads = total_fastq_reads,
              Submatrix = submatrix,
              Sample = sample_name \<rparr>)
         (group_keys Taxon ts_tv_matrix)"

text \<open>
  The body of the loop of lines 74 to 95 for one row. \<open>Series.rpow(d)\<close> is \<open>d ** x\<close>
  on every entry, \<open>*\<close> is the product entry by entry, and \<open>products.sum()\<close> is the
  sum of pandas, which leaves nan products out.
\<close>

definition denominator_summation ::
  "model_params \<Rightarrow> mismatch_row list \<Rightarrow> mismatch_row \<Rightarrow> np_float"
where
  "denominator_summation params mismatch_df row =
     (let mismatch_t_vec = map (\<lambda>r. np_power (delta_t params) (Ts_m r - Ts_m row)) mismatch_df;
          mismatch_v_vec = map (\<lambda>r. np_power (delta_v params) (Tv_m r - Tv_m row)) mismatch_df;
          products = map2 np_times mismatch_t_vec mismatch_v_vec
      in series_sum products)"

definition posterior_row :: "model_params \<Rightarrow> mismatch_row list \<Rightarrow> mismatch_row \<Rightarrow> np_float" where
  "posterior_row params mismatch_df row =
     np_divide_by 1 (denominator_summation params mismatch_df row)"

fun posterior_loop :: "model_params \<Rightarrow> nat list \<Rightarrow> mismatch_row list \<Rightarrow> mismatch_row list" where
  "posterior_loop params [] mismatch_df = mismatch_df"
| "posterior_loop params (index # rest) mismatch_df =
     posterior_loop params rest
       (mismatch_df[index :=
          (mismatch_df ! index)\<lparr>Posterior := posterior_row params mismatch_df (mismatch_df ! index)\<rparr>])"

text \<open>
  Lines 74 to 97: the loop over \<open>iterrows()\<close>, whose labels are the positions
  \<open>0 .. len - 1\<close> after \<open>reset_index\<close>, and the final sort.
\<close>

definition posterior_table :: "model_params \<Rightarrow> mismatch_row list \<Rightarrow> mismatch_row list" where
  "posterior_table params mismatch_df =
     sort_values_desc Posterior (posterior_loop params [0..<length mismatch_df] mismatch_df)"

text \<open>
  \<open>calculate_probabilities\<close>: what is printed on standard output and the rows appended
  to the output file, or the exception raised before anything is written.
\<close>

definition calculate_probabilities ::
  "mismatch_record list input_file \<Rightarrow> model_params input_file \<Rightarrow> string \<Rightarrow>
   real option input_file \<Rightarrow> string \<Rightarrow> error + (string list \<times> mismatch_row list)"
where
  "calculate_probabilities ts_tv_matrix_file params_file sample_name total_fastq_reads submatrix =
     (case read_float total_fastq_reads of
        Inl e \<Rightarrow> Inl e
      | Inr total_reads \<Rightarrow>
     (case read_csv ts_tv_matrix_file of
        Inl e \<Rightarrow> Inl e
      | Inr ts_tv_matrix \<Rightarrow>
     (case read_json params_file of
        Inl e \<Rightarrow> Inl e
      | Inr model_params \<Rightarrow>
          let read_count = nunique (map Read_ID ts_tv_matrix);
              stdout = (if read_count = 0 then [''File is empty, moving on.''] else []);
              mismatch_df = make_mismatch_df read_count model_params total_reads submatrix sample_name
                              ts_tv_matrix
          in Inr (stdout, posterior_table model_params mismatch_df))))"

definition calculate_taxa_probabilities ::
  "mismatch_record list input_file \<Rightarrow> model_params input_file \<Rightarrow> string \<Rightarrow>
   real option input_file \<Rightarrow> error + (string list \<times> mismatch_row list)"
where
  "calculate_taxa_probabilities ts_tv_matrix_file params_file sample_name total_fastq_reads =
     (if st_size ts_tv_matrix_file = 0
        then Inl (AssertionError (''The ts_tv count file is empty '' @ path ts_tv_matrix_file))
      else if st_size params_file = 0
        then Inl (AssertionError
                    (''The probability model parameters file is empty '' @ path params_file))
      else calculate_probabilities ts_tv_matrix_file params_file sample_name total_fastq_reads
             ''all taxa'')"

section \<open>calculate\_dirichlet\_abundances.py\<close>

text \<open>
  One line of the assignment file (columns \<open>Taxon\<close>, \<open>Read_ID\<close>,
  \<open>Dirichlet_Assignment\<close>) and one line of the p-value file (\<open>species\<close>,
  \<open>pvalue\<close>). Read identifiers and taxon names are text, so that the \<open>sum()\<close> of a
  \<open>groupby\<close> keeps the one numeric column.
\<close>

record assignment_record =
  Taxon_a :: string
  Read_ID_a :: string
  Dirichlet_Assignment :: real

record pvalue_record =
  species :: string
  pvalue :: real

text \<open>A pandas Series with a label index: the pairs (label, value) in index order.\<close>

type_synonym 'v series = "(string \<times> 'v) list"

text \<open>
  \<open>s.loc[k] = v\<close> overwrites the value wherever the label \<open>k\<close> is in the index and
  appends a new entry when it is not.
\<close>

definition loc_set :: "string \<Rightarrow> 'v \<Rightarrow> 'v series \<Rightarrow> 'v series" where
  "loc_set k v s =
     (if k \<in> set (map fst s) then map (\<lambda>(k', v'). (k', if k' = k then v else v')) s
      else s @ [(k, v)])"

text \<open>\<open>s.loc[k]\<close> on a Series whose labels are distinct.\<close>

definition loc_get :: "string \<Rightarrow> 'v series \<Rightarrow> error + 'v" where
  "loc_get k s = (case map_of s k of None \<Rightarrow> Inl (KeyError k) | Some v \<Rightarrow> Inr v)"

text \<open>
  \<open>.squeeze()\<close> on the result of a \<open>groupby\<close>: a frame with one numeric column and two
  or more rows becomes a Series; a frame with a single row becomes a scalar; the result
  for a table without rows is a frame without columns, which \<open>squeeze\<close> leaves as it is.
\<close>

datatype 'v squeezed = Scalar 'v | Series "'v series" | EmptyFrame

definition squeeze :: "'v series \<Rightarrow> 'v squeezed" where
  "squeeze s =
     (case s of
        [] \<Rightarrow> EmptyFrame
      | [(k, v)] \<Rightarrow> Scalar v
      | _ \<Rightarrow> Series s)"

text \<open>\<open>groupby(col).sum()\<close> of the numeric column: one entry per key, keys sorted.\<close>

definition groupby_sum :: "('r \<Rightarrow> string) \<Rightarrow> ('r \<Rightarrow> real) \<Rightarrow> 'r list \<Rightarrow> real series" where
  "groupby_sum col val rows =
     map (\<lambda>k. (k, sum_list (map val (get_group col k rows)))) (group_keys col rows)"

text \<open>
  \<open>scipy.stats.hmean\<close>: one over the mean of the reciprocals, that is the number of
  values over the sum of their reciprocals. The reciprocal of a zero is inf, so that a
  zero among the values makes the result 0.0. A negative value is refused with a
  \<open>ValueError\<close> (recent versions of scipy warn and return nan there instead).
\<close>

definition hmean :: "real list \<Rightarrow> error + real" where
  "hmean a =
     (if list_all (\<lambda>x. 0 \<le> x) a
        then Inr (if 0 \<in> set a then 0 else real (length a) / sum_list (map (\<lambda>x. 1 / x) a))
      else Inl (ValueError
                  ''Harmonic mean only defined if all elements greater than or equal to zero''))"

fun hmean_groups :: "pvalue_record list \<Rightarrow> string list \<Rightarrow> error + real series" where
  "hmean_groups tbl [] = Inr []"
| "hmean_groups tbl (k # ks) =
     (case hmean (map pvalue (get_group species k tbl)) of
        Inl e \<Rightarrow> Inl e
      | Inr h \<Rightarrow>
          (case hmean_groups tbl ks of
             Inl e \<Rightarrow> Inl e
           | Inr s \<Rightarrow> Inr ((k, h) # s)))"

text \<open>
  Lines 38 to 47: the harmonic mean p-value per species, and nan for the two pseudo-taxa.
  A scalar has no method \<open>rename\<close>. On the frame of a table without rows the two
  assignments add columns, not labels, so that the index stays empty and every later
  lookup by label fails.
\<close>

definition t_test_vector :: "pvalue_record list \<Rightarrow> error + np_float series" where
  "t_test_vector tbl =
     (case hmean_groups tbl (group_keys species tbl) of
        Inl e \<Rightarrow> Inl e
      | Inr s \<Rightarrow>
          (case squeeze s of
             Scalar v \<Rightarrow> Inl (AttributeError ''numpy.float64 object has no attribute rename'')
           | EmptyFrame \<Rightarrow> Inr []
           | Series s \<Rightarrow>
               Inr (loc_set ''Grey_Matter'' NaN
                     (loc_set ''Dark_Matter'' NaN (map (\<lambda>(k, h). (k, Fin h)) s)))))"

text \<open>
  Line 57, \<open>ts_tv_group.where(ts_tv_group == 0).replace(0, 1).fillna(0)\<close>: \<open>where\<close>
  keeps the zeros and blanks the rest, \<open>replace\<close> turns the zeros into ones, \<open>fillna\<close>
  turns the blanks into zeros.
\<close>

definition grey_matter_of :: "real series \<Rightarrow> real series" where
  "grey_matter_of ts_tv_group = map (\<lambda>(k, v). (k, if v = 0 then 1 else 0)) ts_tv_group"

text \<open>
  Lines 56 to 69: the mass vector \<open>a\<close> with the two pseudo-taxa. A scalar has neither
  \<open>where\<close> nor \<open>loc\<close>. Line 57 works on a Series and on the frame of a table without
  rows alike; on that frame, which has no columns, the assignment of line 60 raises
  \<open>ValueError\<close>.
\<close>

definition aggregate_assignments ::
  "assignment_record list \<Rightarrow> real option input_file \<Rightarrow> error + real series"
where
  "aggregate_assignments ts_tv_matrix total_sample_fastq_reads =
     (let ts_tv_group = groupby_sum Read_ID_a Dirichlet_Assignment ts_tv_matrix
      in case squeeze ts_tv_group of
           Scalar v \<Rightarrow> Inl (AttributeError ''numpy.float64 object has no attribute where'')
         | _ \<Rightarrow>
     (case squeeze (groupby_sum Taxon_a Dirichlet_Assignment ts_tv_matrix) of
        Scalar v \<Rightarrow> Inl (AttributeError ''numpy.float64 object has no attribute loc'')
      | EmptyFrame \<Rightarrow> Inl (ValueError ''cannot set a frame with no defined columns'')
      | Series a \<Rightarrow>
     (case read_float total_sample_fastq_reads of
        Inl e \<Rightarrow> Inl e
      | Inr total_fastq_reads \<Rightarrow>
          let grey_matter = grey_matter_of ts_tv_group;
              a = loc_set ''Grey_Matter'' (sum_list (map snd grey_matter)) a;
              reads_in_bams = nunique (map Read_ID_a ts_tv_matrix);
              remaining_dark_matter = total_fastq_reads - real reads_in_bams
          in Inr (loc_set ''Dark_Matter'' remaining_dark_matter a))))"

text \<open>A row of the output table \<open>posterior_abundance\<close>.\<close>

record abundance_row =
  Taxon_out :: string
  Mean_Posterior_Abundance :: np_float
  CI_lower_95 :: np_float
  CI_upper_95 :: np_float
  Minimum_Read_Num :: np_float
  Maximum_Read_Num :: np_float
  Dirichlet_Read_Num :: np_float
  Fisher_Exact_Pvalue :: np_float

text \<open>
  \<open>scipy.stats.beta.interval(conf, \<alpha>, \<beta>)\<close> returns the quantiles at
  \<open>(1 - conf) / 2\<close> and \<open>(1 + conf) / 2\<close>. The quantile function \<open>beta.ppf\<close> of the
  Beta distribution is a parameter \<open>ppf\<close> of the embedding; scipy returns nan when a shape
  parameter is not positive.
\<close>

definition beta_interval ::
  "(real \<Rightarrow> real \<Rightarrow> real \<Rightarrow> np_float) \<Rightarrow> real \<Rightarrow> real \<Rightarrow> real \<Rightarrow> np_float \<times> np_float"
where
  "beta_interval ppf conf \<alpha> \<beta> = (ppf ((1 - conf) / 2) \<alpha> \<beta>, ppf ((1 + conf) / 2) \<alpha> \<beta>)"

fun np_multiply :: "np_float \<Rightarrow> real \<Rightarrow> np_float" where
  "np_multiply (Fin x) y = Fin (x * y)"
| "np_multiply NaN y = NaN"
| "np_multiply PInf y = (if 0 < y then PInf else if y < 0 then NInf else NaN)"
| "np_multiply NInf y = (if 0 < y then NInf else if y < 0 then PInf else NaN)"

text \<open>Python's \<open>round\<close> of a float: to the nearest integer, ties to the even one.\<close>

definition round_half_even :: "real \<Rightarrow> int" where
  "round_half_even x =
     (let f = \<lfloor>x\<rfloor>
      in if x - of_int f < 1 / 2 then f
         else if 1 / 2 < x - of_int f then f + 1
         else if even f then f else f + 1)"

fun py_round :: "np_float \<Rightarrow> error + int" where
  "py_round (Fin x) = Inr (round_half_even x)"
| "py_round NaN = Inl (ValueError ''cannot convert float NaN to integer'')"
| "py_round PInf = Inl (OverflowError ''cannot convert float infinity to integer'')"
| "py_round NInf = Inl (OverflowError ''cannot convert float infinity to integer'')"

text \<open>Lines 75 to 92: the smoothed means, sorted, and the six columns still to fill.\<close>

definition posterior_abundance_mean :: "real series \<Rightarrow> np_float series" where
  "posterior_abundance_mean a =
     (let b = sum_list (map snd a)
      in sort_values_desc snd (map (\<lambda>(k, ai). (k, np_divide (ai + 1) (b + real (length a)))) a))"

definition new_row :: "string \<Rightarrow> np_float \<Rightarrow> abundance_row" where
  "new_row k m =
     \<lparr> Taxon_out = k, Mean_Posterior_Abundance = m,
       CI_lower_95 = NaN, CI_upper_95 = NaN,
       Minimum_Read_Num = NaN, Maximum_Read_Num = NaN,
       Dirichlet_Read_Num = NaN, Fisher_Exact_Pvalue = NaN \<rparr>"

definition init_posterior_abundance :: "real series \<Rightarrow> abundance_row list" where
  "init_posterior_abundance a = map (\<lambda>(k, m). new_row k m) (posterior_abundance_mean a)"

text \<open>The body of the loop of lines 96 to 112 for the row at \<open>idx\<close>.\<close>

definition fill_row ::
  "(real \<Rightarrow> real \<Rightarrow> real \<Rightarrow> np_float) \<Rightarrow> np_float series \<Rightarrow> real series \<Rightarrow>
   abundance_row \<Rightarrow> error + abundance_row"
where
  "fill_row ppf t_test a row =
     (let b = sum_list (map snd a)
      in case loc_get (Taxon_out row) a of
           Inl e \<Rightarrow> Inl e
         | Inr ai \<Rightarrow>
             let ci = beta_interval ppf 0.95 (ai + 1) (b + real (length a) - ai - 1)
             in (case py_round (np_multiply (fst ci) b) of
                   Inl e \<Rightarrow> Inl e
                 | Inr lo \<Rightarrow>
                (case py_round (np_multiply (snd ci) b) of
                   Inl e \<Rightarrow> Inl e
                 | Inr hi \<Rightarrow>
                (case loc_get (Taxon_out row) t_test of
                   Inl e \<Rightarrow> Inl e
                 | Inr p \<Rightarrow>
                     Inr (row\<lparr> CI_lower_95 := fst ci, CI_upper_95 := snd ci,
                               Minimum_Read_Num := Fin (of_int lo),
                               Maximum_Read_Num := Fin (of_int hi),
                               Dirichlet_Read_Num := Fin ai,
                               Fisher_Exact_Pvalue := p \<rparr>)))))"

fun abundance_loop ::
  "(real \<Rightarrow> real \<Rightarrow> real \<Rightarrow> np_float) \<Rightarrow> np_float series \<Rightarrow> real series \<Rightarrow>
   nat list \<Rightarrow> abundance_row list \<Rightarrow> error + abundance_row list"
where
  "abundance_loop ppf t_test a [] posterior_abundance = Inr posterior_abundance"
| "abundance_loop ppf t_test a (idx # rest) posterior_abundance =
     (case fill_row ppf t_test a (posterior_abundance ! idx) of
        Inl e \<Rightarrow> Inl e
      | Inr row \<Rightarrow> abundance_loop ppf t_test a rest (posterior_abundance[idx := row]))"

text \<open>Lines 75 to 112: the AbundanceEstimator on a mass vector \<open>a\<close>.\<close>

definition estimate_abundances ::
  "(real \<Rightarrow> real \<Rightarrow> real \<Rightarrow> np_float) \<Rightarrow> np_float series \<Rightarrow> real series \<Rightarrow>
   error + abundance_row list"
where
  "estimate_abundances ppf t_test a =
     (let posterior_abundance = init_posterior_abundance a
      in abundance_loop ppf t_test a [0..<length posterior_abundance] posterior_abundance)"

text \<open>
  \<open>calculate_dirichlet_abundances\<close>: the rows written to the abundance file, or the
  exception raised before the file is opened.
\<close>

definition calculate_dirichlet_abundances ::
  "(real \<Rightarrow> real \<Rightarrow> real \<Rightarrow> np_float) \<Rightarrow> assignment_record list input_file \<Rightarrow>
   pvalue_record list input_file \<Rightarrow> real option input_file \<Rightarrow> error + abundance_row list"
where
  "calculate_dirichlet_abundances ppf ts_tv_file pvaluesfile total_sample_fastq_reads =
     (if st_size ts_tv_file = 0
        then Inl (AssertionError (''The ts_tv count file is empty '' @ path ts_tv_file))
      else if st_size pvaluesfile = 0
        then Inl (AssertionError (''The t-test p values file is empty '' @ path pvaluesfile))
      else if st_size total_sample_fastq_reads = 0
        then Inl (AssertionError
                    (''The total fastq reads file is empty '' @ path total_sample_fastq_reads))
      else
        (case read_csv pvaluesfile of
           Inl e \<Rightarrow> Inl e
         | Inr pvalues \<Rightarrow>
        (case t_test_vector pvalues of
           Inl e \<Rightarrow> Inl e
         | Inr t_test \<Rightarrow>
        (case read_csv ts_tv_file of
           Inl e \<Rightarrow> Inl e
         | Inr ts_tv_matrix \<Rightarrow>
        (case aggregate_assignments ts_tv_matrix total_sample_fastq_reads of
           Inl e \<Rightarrow> Inl e
         | Inr a \<Rightarrow> estimate_abundances ppf t_test a)))))"

text \<open>
  A stand-in for \<open>beta.ppf\<close> in the worked examples below: it returns \<open>q\<close> itself, which
  is the quantile of the uniform distribution Beta(1, 1), for every positive pair of
  shape parameters, and nan, as scipy does, when a shape parameter is not positive. The
  general statements hold for every quantile function.
\<close>

definition example_ppf :: "real \<Rightarrow> real \<Rightarrow> real \<Rightarrow> np_float" where
  "example_ppf q \<alpha> \<beta> = (if 0 < \<alpha> \<and> 0 < \<beta> then Fin q else NaN)"

section \<open>Properties of the taxon posterior calculation\<close>

subsection \<open>The loop over the rows\<close>

lemma denominator_summation_eq:
  "denominator_summation p df row =
     series_sum (map (\<lambda>r. np_times (np_power (delta_t p) (Ts_m r - Ts_m row))
                                  (np_power (delta_v p) (Tv_m r - Tv_m row))) df)"
  by (simp add: denominator_summation_def Let_def map2_map_map)

lemma map_update_same: "(map f xs)[i := f (xs ! i)] = map f xs"
proof (cases "i < length xs")
  case True
  then have "f (xs ! i) = map f xs ! i" by simp
  then show ?thesis by (simp only: list_update_id)
next
  case False
  then show ?thesis by (simp add: list_update_beyond)
qed

lemma denominator_summation_cong:
  assumes "map Ts_m df' = map Ts_m df" "map Tv_m df' = map Tv_m df"
    "Ts_m row' = Ts_m row" "Tv_m row' = Tv_m row"
  shows "denominator_summation p df' row' = denominator_summation p df row"
proof -
  have len: "length df' = length df"
    using assms(1) by (metis length_map)
  have e1: "(\<lambda>r. np_times (np_power (delta_t p) (Ts_m r - Ts_m row')) (np_power (delta_v p) (Tv_m r - Tv_m row')))
      = (\<lambda>r. np_times (np_power (delta_t p) (Ts_m r - Ts_m row)) (np_power (delta_v p) (Tv_m r - Tv_m row)))"
    using assms(3,4) by simp
  have e2: "map (\<lambda>r. np_times (np_power (delta_t p) (Ts_m r - Ts_m row)) (np_power (delta_v p) (Tv_m r - Tv_m row))) df'
      = map (\<lambda>r. np_times (np_power (delta_t p) (Ts_m r - Ts_m row)) (np_power (delta_v p) (Tv_m r - Tv_m row))) df"
  proof (rule nth_equalityI)
    show "length (map (\<lambda>r. np_times (np_power (delta_t p) (Ts_m r - Ts_m row)) (np_power (delta_v p) (Tv_m r - Tv_m row))) df')
        = length (map (\<lambda>r. np_times (np_power (delta_t p) (Ts_m r - Ts_m row)) (np_power (delta_v p) (Tv_m r - Tv_m row))) df)"
      using len by simp
  next
    fix i
    assume "i < length (map (\<lambda>r. np_times (np_power (delta_t p) (Ts_m r - Ts_m row)) (np_power (delta_v p) (Tv_m r - Tv_m row))) df')"
    then have i: "i < length df'" "i < length df" using len by simp_all
    have "map Ts_m df' ! i = map Ts_m df ! i" "map Tv_m df' ! i = map Tv_m df ! i"
      using assms(1,2) by simp_all
    then have "Ts_m (df' ! i) = Ts_m (df ! i)" "Tv_m (df' ! i) = Tv_m (df ! i)"
      using i by simp_all
    then show "map (\<lambda>r. np_times (np_power (delta_t p) (Ts_m r - Ts_m row)) (np_power (delta_v p) (Tv_m r - Tv_m row))) df' ! i
        = map (\<lambda>r. np_times (np_power (delta_t p) (Ts_m r - Ts_m row)) (np_power (delta_v p) (Tv_m r - Tv_m row))) df ! i"
      using i by simp
  qed
  show ?thesis by (simp only: denominator_summation_eq e1 e2)
qed

lemma posterior_loop_length [simp]: "length (posterior_loop p is df) = length df"
  by (induction "is" arbitrary: df) simp_all

lemma nth_update_Posterior:
  "i < length df \<Longrightarrow>
   df[k := (df ! k)\<lparr>Posterior := x\<rparr>] ! i = (if i = k then (df ! i)\<lparr>Posterior := x\<rparr> else df ! i)"
  by (cases "i = k") simp_all

lemma posterior_loop_nth:
  "i < length df \<Longrightarrow>
   posterior_loop p is df ! i =
     (if i \<in> set is then (df ! i)\<lparr>Posterior := posterior_row p df (df ! i)\<rparr> else df ! i)"
proof (induction "is" arbitrary: df)
  case Nil then show ?case by simp
next
  case (Cons index rest)
  define x where "x = posterior_row p df (df ! index)"
  define df1 where "df1 = df[index := (df ! index)\<lparr>Posterior := x\<rparr>]"
  have ts: "map Ts_m df1 = map Ts_m df" and tv: "map Tv_m df1 = map Tv_m df"
    by (simp_all add: df1_def map_update map_update_same)
  have len: "i < length df1" using Cons.prems by (simp add: df1_def)
  have nth1: "df1 ! i = (if i = index then (df ! i)\<lparr>Posterior := x\<rparr> else df ! i)"
    unfolding df1_def using Cons.prems by (rule nth_update_Posterior)
  have row: "Ts_m (df1 ! i) = Ts_m (df ! i)" "Tv_m (df1 ! i) = Tv_m (df ! i)"
    by (simp_all add: nth1)
  have pr: "posterior_row p df1 (df1 ! i) = posterior_row p df (df ! i)"
    unfolding posterior_row_def by (simp only: denominator_summation_cong [OF ts tv row])
  have unfold: "posterior_loop p (index # rest) df = posterior_loop p rest df1"
    by (simp add: df1_def x_def)
  have step: "posterior_loop p rest df1 ! i =
      (if i \<in> set rest then (df1 ! i)\<lparr>Posterior := posterior_row p df (df ! i)\<rparr> else df1 ! i)"
    using Cons.IH [OF len] by (simp only: pr)
  show ?case
  proof (cases "i = index")
    case True
    then show ?thesis unfolding unfold step nth1 by (simp add: x_def)
  next
    case False
    then show ?thesis unfolding unfold step nth1 by simp
  qed
qed

lemma posterior_loop_all:
  "posterior_loop p [0..<length df] df = map (\<lambda>r. r\<lparr>Posterior := posterior_row p df r\<rparr>) df"
proof (rule nth_equalityI)
  show "length (posterior_loop p [0..<length df] df) = length (map (\<lambda>r. r\<lparr>Posterior := posterior_row p df r\<rparr>) df)"
    by simp
next
  fix i assume "i < length (posterior_loop p [0..<length df] df)"
  then have i: "i < length df" by simp
  then show "posterior_loop p [0..<length df] df ! i = map (\<lambda>r. r\<lparr>Posterior := posterior_row p df r\<rparr>) df ! i"
    by (simp add: posterior_loop_nth)
qed

lemma mset_insert_desc [simp]: "mset (insert_desc key x ys) = add_mset x (mset ys)"
  by (induction ys) simp_all

lemma mset_sort_values_desc [simp]: "mset (sort_values_desc key xs) = mset xs"
  unfolding sort_values_desc_def by (induction xs) simp_all

lemma set_sort_values_desc [simp]: "set (sort_values_desc key xs) = set xs"
  using mset_sort_values_desc [of key xs] by (metis set_mset_mset)

lemma length_sort_values_desc [simp]: "length (sort_values_desc key xs) = length xs"
  using mset_sort_values_desc [of key xs] by (metis size_mset)

lemma sum_list_sort_values_desc:
  fixes f :: "'a \<Rightarrow> real"
  shows "sum_list (map f (sort_values_desc key xs)) = sum_list (map f xs)"
proof -
  have "mset (map f (sort_values_desc key xs)) = mset (map f xs)" by simp
  then show ?thesis by (metis sum_mset_sum_list)
qed

lemma set_posterior_table:
  "set (posterior_table p df) = (\<lambda>r. r\<lparr>Posterior := posterior_row p df r\<rparr>) ` set df"
  by (simp add: posterior_table_def posterior_loop_all)

subsection \<open>The range of the floats\<close>

lemma threshold_order: "(2::real) ^ 64 < overflow_threshold" "underflow_threshold < 1 / (2::real) ^ 64"
  unfolding overflow_threshold_def underflow_threshold_def by simp_all

lemma to_float64_moderate:
  assumes "1 / 2 ^ 64 \<le> \<bar>v\<bar>" "\<bar>v\<bar> \<le> 2 ^ 64"
  shows "to_float64 v = Fin v"
  using assms threshold_order by (auto simp: to_float64_def abs_if split: if_splits)

lemma np_plus_moderate:
  assumes "\<bar>x + y\<bar> \<le> 2 ^ 64"
  shows "np_plus (Fin x) (Fin y) = Fin (x + y)"
  using assms threshold_order(1) by (auto simp: abs_if split: if_splits)

lemma to_float64_underflow:
  assumes "\<bar>v\<bar> \<le> underflow_threshold"
  shows "to_float64 v = Fin 0"
proof -
  have "underflow_threshold < overflow_threshold"
    using threshold_order by simp
  then show ?thesis using assms by (auto simp: to_float64_def abs_if split: if_splits)
qed

lemma to_float64_0: "to_float64 0 = Fin 0"
  by (rule to_float64_underflow) (simp add: underflow_threshold_def)

lemma np_power_0: "np_power x 0 = Fin 1"
  by (simp add: np_power_def)

lemma half_powr_2000: "np_power (1/2) 2000 = Fin 0"
proof -
  have e: "(1/2 :: real) powr 2000 = (1/2) ^ 2000"
    using powr_realpow [of "1/2::real" 2000] by simp
  have "(1/2 :: real) ^ 2000 \<le> 1 / 2 ^ 1075"
    by (simp add: power_one_over)
  moreover have "0 \<le> (1/2 :: real) ^ 2000" by simp
  ultimately have "\<bar>(1/2 :: real) ^ 2000\<bar> \<le> underflow_threshold"
    unfolding underflow_threshold_def by linarith
  then have "to_float64 ((1/2) ^ 2000) = Fin 0" by (rule to_float64_underflow)
  then show ?thesis by (simp add: np_power_def e)
qed

lemma half_powr_minus_2000: "np_power (1/2) (- 2000) = PInf"
proof -
  have "(1/2 :: real) powr (- 2000) = 2 ^ 2000"
    using powr_realpow [of "1/2::real" 2000] by (simp add: powr_minus power_one_over)
  moreover have "overflow_threshold \<le> (2::real) ^ 2000"
    unfolding overflow_threshold_def by simp
  ultimately show ?thesis
    by (simp add: np_power_def to_float64_def)
qed

subsection \<open>Powers out of the range of the floats\<close>

text \<open>
  Claim C1 at its failing input. Taxon \<open>A\<close> has the totals \<open>Ts = 0, Tv = 2000\<close> and taxon
  \<open>B\<close> the totals \<open>Ts = 2000, Tv = 0\<close>; both deltas are \<open>1/2\<close>. The formula of the
  claim gives the posterior \<open>1/2\<close> for either taxon. In the code the power
  \<open>0.5 ** 2000\<close> is 0, the power \<open>0.5 ** -2000\<close> is inf, their product is nan and the
  sum leaves it out: the denominator is 1 and both posteriors are written as 1.
\<close>

theorem posterior_formula_underflow:
  "calculate_probabilities
      \<lparr>path = ''ts_tv.csv'', st_size = 60, content =
        [\<lparr>Taxon = ''A'', Read_ID = ''r1'', Ts = 0, Tv = 2000\<rparr>,
         \<lparr>Taxon = ''B'', Read_ID = ''r1'', Ts = 2000, Tv = 0\<rparr>]\<rparr>
      \<lparr>path = ''params.json'', st_size = 80, content =
        \<lparr>ts_missing_val = 1, tv_missing_val = 1, delta_t = 1/2, delta_v = 1/2\<rparr>\<rparr>
      ''s''
      \<lparr>path = ''total.count'', st_size = 3, content = Some 10\<rparr>
      ''all taxa''
     = Inr ([], [\<lparr>Taxon_m = ''A'', Ts_m = 0, Tv_m = 2000, Posterior = Fin 1, Read_Count = 1,
          Total_Reads = 10, Submatrix = ''all taxa'', Sample = ''s''\<rparr>,
        \<lparr>Taxon_m = ''B'', Ts_m = 2000, Tv_m = 0, Posterior = Fin 1, Read_Count = 1,
          Total_Reads = 10, Submatrix = ''all taxa'', Sample = ''s''\<rparr>]) \<and>
   1 / ((1/2) powr (0 - 0) * (1/2) powr (2000 - 2000)
        + (1/2) powr (2000 - 0) * (1/2) powr (0 - 2000)) = (1/2 :: real)"
proof -
  have "(1/2 :: real) powr 2000 * (1/2) powr (- 2000) = (1/2) powr (2000 + - 2000)"
    by (rule powr_add [symmetric])
  then have "(1/2 :: real) powr (2000 - 0) * (1/2) powr (0 - 2000) = 1"
    by simp
  then have formula: "1 / ((1/2) powr (0 - 0) * (1/2) powr (2000 - 2000)
        + (1/2) powr (2000 - 0) * (1/2) powr (0 - 2000)) = (1/2 :: real)"
    by simp
  have run: "calculate_probabilities
      \<lparr>path = ''ts_tv.csv'', st_size = 60, content =
        [\<lparr>Taxon = ''A'', Read_ID = ''r1'', Ts = 0, Tv = 2000\<rparr>,
         \<lparr>Taxon = ''B'', Read_ID = ''r1'', Ts = 2000, Tv = 0\<rparr>]\<rparr>
      \<lparr>path = ''params.json'', st_size = 80, content =
        \<lparr>ts_missing_val = 1, tv_missing_val = 1, delta_t = 1/2, delta_v = 1/2\<rparr>\<rparr>
      ''s''
      \<lparr>path = ''total.count'', st_size = 3, content = Some 10\<rparr>
      ''all taxa''
     = Inr ([], [\<lparr>Taxon_m = ''A'', Ts_m = 0, Tv_m = 2000, Posterior = Fin 1, Read_Count = 1,
          Total_Reads = 10, Submatrix = ''all taxa'', Sample = ''s''\<rparr>,
        \<lparr>Taxon_m = ''B'', Ts_m = 2000, Tv_m = 0, Posterior = Fin 1, Read_Count = 1,
          Total_Reads = 10, Submatrix = ''all taxa'', Sample = ''s''\<rparr>])"
    by (simp add: calculate_probabilities_def read_float_def read_csv_def read_json_def
        nunique_def Let_def make_mismatch_df_def group_keys_def get_group_def agg_missing_def
        posterior_table_def sort_values_desc_def posterior_loop_all posterior_row_def
        denominator_summation_eq series_sum_def half_powr_2000 half_powr_minus_2000
        np_power_0 to_float64_0 to_float64_moderate np_plus_moderate
        del: np_plus.simps(1))
  show ?thesis using run formula by (rule conjI)
qed


subsection \<open>The aggregation of the mismatch counts\<close>

lemma set_group_keys [simp]: "set (group_keys col rows) = col ` set rows"
  by (simp add: group_keys_def)

lemma distinct_group_keys [simp]: "distinct (group_keys col rows)"
  by (simp add: group_keys_def)

lemma nunique_card: "nunique xs = card (set xs)"
  by (simp add: nunique_def length_remdups_card_conv)

lemma calculate_probabilities_Inr:
  assumes "calculate_probabilities f pf s tot sub = Inr (out, rows)"
  shows "\<exists>x. read_float tot = Inr x \<and>
           rows = posterior_table (content pf)
                    (make_mismatch_df (nunique (map Read_ID (content f))) (content pf) x sub s (content f))"
  using assms
  by (auto simp: calculate_probabilities_def read_csv_def read_json_def Let_def
        split: sum.splits if_splits)

text \<open>
  Claim C2. When \<open>calculate_probabilities\<close> returns, the output has exactly one row for
  every taxon \<open>t\<close> of the table, and that row holds the sum of the taxon's observed Ts
  counts plus \<open>(R - n\<^sub>t) * (ts_missing_val + 1)\<close>, the same for Tv with
  \<open>tv_missing_val\<close>, where \<open>n\<^sub>t\<close> is the number of records of the taxon and \<open>R\<close>,
  also stored as \<open>Read_Count\<close>, is the number of distinct \<open>Read_ID\<close> values of the
  whole table.
\<close>

theorem aggregated_totals:
  assumes run: "calculate_probabilities f pf s tot sub = Inr (out, rows)"
    and t: "t \<in> Taxon ` set (content f)"
  shows "(\<exists>!row. row \<in> set rows \<and> Taxon_m row = t) \<and>
         (\<forall>row\<in>set rows. Taxon_m row = t \<longrightarrow>
            Ts_m row = real_of_int (\<Sum>r\<leftarrow>filter (\<lambda>r. Taxon r = t) (content f). Ts r)
                       + (real (card (Read_ID ` set (content f)))
                            - real (length (filter (\<lambda>r. Taxon r = t) (content f))))
                         * (ts_missing_val (content pf) + 1) \<and>
            Tv_m row = real_of_int (\<Sum>r\<leftarrow>filter (\<lambda>r. Taxon r = t) (content f). Tv r)
                       + (real (card (Read_ID ` set (content f)))
                            - real (length (filter (\<lambda>r. Taxon r = t) (content f))))
                         * (tv_missing_val (content pf) + 1) \<and>
            Read_Count row = card (Read_ID ` set (content f)))"
proof -
  obtain x where rows: "rows = posterior_table (content pf)
      (make_mismatch_df (nunique (map Read_ID (content f))) (content pf) x sub s (content f))"
    using calculate_probabilities_Inr [OF run] by blast
  define df where "df = make_mismatch_df (nunique (map Read_ID (content f))) (content pf) x sub s (content f)"
  define g where "g = (\<lambda>r. r\<lparr>Posterior := posterior_row (content pf) df r\<rparr>)"
  have set_rows: "set rows = g ` set df"
    by (simp add: rows df_def g_def set_posterior_table)
  define mk where "mk = (\<lambda>k.
            \<lparr> Taxon_m = k,
              Ts_m = agg_missing (nunique (map Read_ID (content f))) (ts_missing_val (content pf))
                       (map Ts (get_group Taxon k (content f))),
              Tv_m = agg_missing (nunique (map Read_ID (content f))) (tv_missing_val (content pf))
                       (map Tv (get_group Taxon k (content f))),
              Posterior = NaN,
              Read_Count = nunique (map Read_ID (content f)),
              Total_Reads = x,
              Submatrix = sub,
              Sample = s \<rparr>)"
  have set_df: "set df = mk ` (Taxon ` set (content f))"
    by (simp add: df_def make_mismatch_df_def mk_def)
  have key: "\<And>row. row \<in> set rows \<Longrightarrow> row = g (mk (Taxon_m row)) \<and> Taxon_m row \<in> Taxon ` set (content f)"
  proof -
    fix row assume "row \<in> set rows"
    then obtain k where k: "k \<in> Taxon ` set (content f)" "row = g (mk k)"
      using set_rows set_df by auto
    have "Taxon_m row = k" using k(2) by (simp add: g_def mk_def)
    then show "row = g (mk (Taxon_m row)) \<and> Taxon_m row \<in> Taxon ` set (content f)"
      using k by simp
  qed
  have mem: "g (mk t) \<in> set rows" using t set_rows set_df by blast
  have tax: "Taxon_m (g (mk t)) = t" by (simp add: g_def mk_def)
  have ex1: "\<exists>!row. row \<in> set rows \<and> Taxon_m row = t"
  proof (rule ex1I [of _ "g (mk t)"])
    show "g (mk t) \<in> set rows \<and> Taxon_m (g (mk t)) = t" using mem tax by simp
  next
    fix row assume "row \<in> set rows \<and> Taxon_m row = t"
    then show "row = g (mk t)" using key by blast
  qed
  have vals: "Ts_m (g (mk t)) = real_of_int (\<Sum>r\<leftarrow>filter (\<lambda>r. Taxon r = t) (content f). Ts r)
                       + (real (card (Read_ID ` set (content f)))
                            - real (length (filter (\<lambda>r. Taxon r = t) (content f))))
                         * (ts_missing_val (content pf) + 1)"
     "Tv_m (g (mk t)) = real_of_int (\<Sum>r\<leftarrow>filter (\<lambda>r. Taxon r = t) (content f). Tv r)
                       + (real (card (Read_ID ` set (content f)))
                            - real (length (filter (\<lambda>r. Taxon r = t) (content f))))
                         * (tv_missing_val (content pf) + 1)"
     "Read_Count (g (mk t)) = card (Read_ID ` set (content f))"
    by (simp_all add: g_def mk_def agg_missing_def get_group_def nunique_card)
  have all: "\<forall>row\<in>set rows. Taxon_m row = t \<longrightarrow>
            Ts_m row = real_of_int (\<Sum>r\<leftarrow>filter (\<lambda>r. Taxon r = t) (content f). Ts r)
                       + (real (card (Read_ID ` set (content f)))
                            - real (length (filter (\<lambda>r. Taxon r = t) (content f))))
                         * (ts_missing_val (content pf) + 1) \<and>
            Tv_m row = real_of_int (\<Sum>r\<leftarrow>filter (\<lambda>r. Taxon r = t) (content f). Tv r)
                       + (real (card (Read_ID ` set (content f)))
                            - real (length (filter (\<lambda>r. Taxon r = t) (content f))))
                         * (tv_missing_val (content pf) + 1) \<and>
            Read_Count row = card (Read_ID ` set (content f))"
  proof (intro ballI impI)
    fix row assume "row \<in> set rows" "Taxon_m row = t"
    then have "row = g (mk t)" using key by blast
    then show "Ts_m row = real_of_int (\<Sum>r\<leftarrow>filter (\<lambda>r. Taxon r = t) (content f). Ts r)
                       + (real (card (Read_ID ` set (content f)))
                            - real (length (filter (\<lambda>r. Taxon r = t) (content f))))
                         * (ts_missing_val (content pf) + 1) \<and>
            Tv_m row = real_of_int (\<Sum>r\<leftarrow>filter (\<lambda>r. Taxon r = t) (content f). Tv r)
                       + (real (card (Read_ID ` set (content f)))
                            - real (length (filter (\<lambda>r. Taxon r = t) (content f))))
                         * (tv_missing_val (content pf) + 1) \<and>
            Read_Count row = card (Read_ID ` set (content f))"
      using vals by simp
  qed
  show ?thesis using ex1 all by blast
qed

theorem aggregated_totals_witness:
  "calculate_probabilities
      \<lparr>path = ''ts_tv.csv'', st_size = 60, content =
        [\<lparr>Taxon = ''A'', Read_ID = ''r1'', Ts = 2, Tv = 1\<rparr>,
         \<lparr>Taxon = ''A'', Read_ID = ''r2'', Ts = 0, Tv = 0\<rparr>,
         \<lparr>Taxon = ''B'', Read_ID = ''r1'', Ts = 1, Tv = 1\<rparr>]\<rparr>
      \<lparr>path = ''params.json'', st_size = 80, content =
        \<lparr>ts_missing_val = 1, tv_missing_val = 0, delta_t = 1/2, delta_v = 1/4\<rparr>\<rparr>
      ''s''
      \<lparr>path = ''total.count'', st_size = 3, content = Some 10\<rparr>
      ''all taxa''
     = Inr ([], [\<lparr>Taxon_m = ''A'', Ts_m = 2, Tv_m = 1, Posterior = Fin (8/9), Read_Count = 2,
        Total_Reads = 10, Submatrix = ''all taxa'', Sample = ''s''\<rparr>,
        \<lparr>Taxon_m = ''B'', Ts_m = 3, Tv_m = 2, Posterior = Fin (1/9), Read_Count = 2,
        Total_Reads = 10, Submatrix = ''all taxa'', Sample = ''s''\<rparr>]) \<and>
   ''B'' \<in> Taxon ` set (content \<lparr>path = ''ts_tv.csv'', st_size = 60, content =
        [\<lparr>Taxon = ''A'', Read_ID = ''r1'', Ts = 2, Tv = 1\<rparr>,
         \<lparr>Taxon = ''A'', Read_ID = ''r2'', Ts = 0, Tv = 0\<rparr>,
         \<lparr>Taxon = ''B'', Read_ID = ''r1'', Ts = 1, Tv = 1\<rparr>]\<rparr>) \<and>
   (\<exists>!row. row \<in> set [\<lparr>Taxon_m = ''A'', Ts_m = 2, Tv_m = 1, Posterior = Fin (8/9), Read_Count = 2,
        Total_Reads = 10, Submatrix = ''all taxa'', Sample = ''s''\<rparr>,
        \<lparr>Taxon_m = ''B'', Ts_m = 3, Tv_m = 2, Posterior = Fin (1/9), Read_Count = 2,
        Total_Reads = 10, Submatrix = ''all taxa'', Sample = ''s''\<rparr>] \<and> Taxon_m row = ''B'') \<and>
   Taxon_m (\<lparr>Taxon_m = ''B'', Ts_m = 3, Tv_m = 2, Posterior = Fin (1/9), Read_Count = 2,
        Total_Reads = 10, Submatrix = ''all taxa'', Sample = ''s''\<rparr>) = ''B'' \<and>
   Ts_m (\<lparr>Taxon_m = ''B'', Ts_m = 3, Tv_m = 2, Posterior = Fin (1/9), Read_Count = 2,
        Total_Reads = 10, Submatrix = ''all taxa'', Sample = ''s''\<rparr>) = 1 + (2 - 1) * (1 + 1) \<and>
   Tv_m (\<lparr>Taxon_m = ''B'', Ts_m = 3, Tv_m = 2, Posterior = Fin (1/9), Read_Count = 2,
        Total_Reads = 10, Submatrix = ''all taxa'', Sample = ''s''\<rparr>) = 1 + (2 - 1) * (0 + 1) \<and>
   Read_Count (\<lparr>Taxon_m = ''B'', Ts_m = 3, Tv_m = 2, Posterior = Fin (1/9), Read_Count = 2,
        Total_Reads = 10, Submatrix = ''all taxa'', Sample = ''s''\<rparr>) = 2"
proof -
  have run: "calculate_probabilities
      \<lparr>path = ''ts_tv.csv'', st_size = 60, content =
        [\<lparr>Taxon = ''A'', Read_ID = ''r1'', Ts = 2, Tv = 1\<rparr>,
         \<lparr>Taxon = ''A'', Read_ID = ''r2'', Ts = 0, Tv = 0\<rparr>,
         \<lparr>Taxon = ''B'', Read_ID = ''r1'', Ts = 1, Tv = 1\<rparr>]\<rparr>
      \<lparr>path = ''params.json'', st_size = 80, content =
        \<lparr>ts_missing_val = 1, tv_missing_val = 0, delta_t = 1/2, delta_v = 1/4\<rparr>\<rparr>
      ''s''
      \<lparr>path = ''total.count'', st_size = 3, content = Some 10\<rparr>
      ''all taxa''
     = Inr ([], [\<lparr>Taxon_m = ''A'', Ts_m = 2, Tv_m = 1, Posterior = Fin (8/9), Read_Count = 2,
        Total_Reads = 10, Submatrix = ''all taxa'', Sample = ''s''\<rparr>,
        \<lparr>Taxon_m = ''B'', Ts_m = 3, Tv_m = 2, Posterior = Fin (1/9), Read_Count = 2,
        Total_Reads = 10, Submatrix = ''all taxa'', Sample = ''s''\<rparr>])"
    by (simp add: calculate_probabilities_def read_float_def read_csv_def read_json_def
          nunique_def Let_def make_mismatch_df_def group_keys_def get_group_def agg_missing_def
          posterior_table_def sort_values_desc_def posterior_loop_all posterior_row_def
          denominator_summation_eq series_sum_def np_power_def powr_minus
          to_float64_moderate np_plus_moderate del: np_plus.simps(1))
  have t: "''B'' \<in> Taxon ` set (content \<lparr>path = ''ts_tv.csv'', st_size = 60, content =
        [\<lparr>Taxon = ''A'', Read_ID = ''r1'', Ts = 2, Tv = 1\<rparr>,
         \<lparr>Taxon = ''A'', Read_ID = ''r2'', Ts = 0, Tv = 0\<rparr>,
         \<lparr>Taxon = ''B'', Read_ID = ''r1'', Ts = 1, Tv = 1\<rparr>]\<rparr>)"
    by simp
  show ?thesis
    using run t aggregated_totals [OF run t] by simp
qed

subsection \<open>Empty inputs of the identification script\<close>

lemma nunique_0_iff: "nunique xs = 0 \<longleftrightarrow> xs = []"
  by (simp add: nunique_def)

lemma posterior_table_Nil [simp]: "posterior_table p [] = []"
  by (simp add: posterior_table_def sort_values_desc_def)

text \<open>
  Claim C6, as the code has it. A table without any read (a file holding only the header
  line), with a parameters file that is not empty and a total-reads file holding a number,
  makes \<open>calculate_probabilities\<close> print \<open>File is empty, moving on.\<close> and go on: it
  returns normally with a result table that has no rows. No exception is raised.
\<close>

theorem no_reads_moves_on:
  assumes "nunique (map Read_ID (content ts_tv_matrix_file)) = 0"
    and "st_size ts_tv_matrix_file \<noteq> 0"
    and "st_size params_file \<noteq> 0"
    and "read_float total_fastq_reads = Inr x"
  shows "calculate_probabilities ts_tv_matrix_file params_file sample_name total_fastq_reads submatrix
           = Inr ([''File is empty, moving on.''], [])"
proof -
  have "content ts_tv_matrix_file = []"
    using assms(1) by (simp add: nunique_0_iff)
  then show ?thesis
    using assms(2,3,4)
    by (simp add: calculate_probabilities_def read_csv_def read_json_def nunique_def
          make_mismatch_df_def group_keys_def)
qed

theorem no_reads_moves_on_witness:
  "nunique (map Read_ID (content \<lparr>path = ''ts_tv.csv'', st_size = 18, content = []\<rparr>)) = 0 \<and>
   st_size \<lparr>path = ''ts_tv.csv'', st_size = 18, content = [] :: mismatch_record list\<rparr> \<noteq> 0 \<and>
   st_size \<lparr>path = ''params.json'', st_size = 80, content =
         \<lparr>ts_missing_val = 1, tv_missing_val = 0, delta_t = 1/2, delta_v = 1/4\<rparr>\<rparr> \<noteq> 0 \<and>
   read_float \<lparr>path = ''total.count'', st_size = 3, content = Some 10\<rparr> = Inr 10 \<and>
   calculate_probabilities \<lparr>path = ''ts_tv.csv'', st_size = 18, content = []\<rparr>
      \<lparr>path = ''params.json'', st_size = 80, content =
         \<lparr>ts_missing_val = 1, tv_missing_val = 0, delta_t = 1/2, delta_v = 1/4\<rparr>\<rparr>
      ''s'' \<lparr>path = ''total.count'', st_size = 3, content = Some 10\<rparr> ''all taxa''
     = Inr ([''File is empty, moving on.''], [])"
proof -
  have a: "nunique (map Read_ID (content \<lparr>path = ''ts_tv.csv'', st_size = 18, content = []\<rparr>)) = 0"
    by (simp add: nunique_def)
  have b: "st_size \<lparr>path = ''ts_tv.csv'', st_size = 18, content = [] :: mismatch_record list\<rparr> \<noteq> 0"
    by simp
  have c: "st_size \<lparr>path = ''params.json'', st_size = 80, content =
         \<lparr>ts_missing_val = 1, tv_missing_val = 0, delta_t = 1/2, delta_v = 1/4\<rparr>\<rparr> \<noteq> 0"
    by simp
  have d: "read_float \<lparr>path = ''total.count'', st_size = 3, content = Some 10\<rparr> = Inr 10"
    by (simp add: read_float_def)
  show ?thesis
    by (rule conjI [OF a conjI [OF b conjI [OF c conjI [OF d no_reads_moves_on [OF a b c d]]]]])
qed

text \<open>
  Claim C6 as stated fails: a header-only table has no read, and the wrapper neither
  raises on it nor stops; it ends normally.
\<close>

theorem no_reads_counterexample:
  "nunique (map Read_ID (content \<lparr>path = ''ts_tv.csv'', st_size = 18, content = []\<rparr>)) = 0 \<and>
   calculate_taxa_probabilities \<lparr>path = ''ts_tv.csv'', st_size = 18, content = []\<rparr>
      \<lparr>path = ''params.json'', st_size = 80, content =
         \<lparr>ts_missing_val = 1, tv_missing_val = 0, delta_t = 1/2, delta_v = 1/4\<rparr>\<rparr>
      ''s'' \<lparr>path = ''total.count'', st_size = 3, content = Some 10\<rparr>
     = Inr ([''File is empty, moving on.''], [])"
  by (simp add: calculate_taxa_probabilities_def calculate_probabilities_def read_float_def
        read_csv_def read_json_def nunique_def make_mismatch_df_def group_keys_def)

text \<open>
  The assertions of the two entry points: each names the file it found empty.
\<close>

lemma taxa_probabilities_asserts:
  "st_size ts_tv_matrix_file = 0 \<Longrightarrow>
     calculate_taxa_probabilities ts_tv_matrix_file params_file s total_fastq_reads
       = Inl (AssertionError (''The ts_tv count file is empty '' @ path ts_tv_matrix_file))"
  "st_size ts_tv_matrix_file \<noteq> 0 \<Longrightarrow> st_size params_file = 0 \<Longrightarrow>
     calculate_taxa_probabilities ts_tv_matrix_file params_file s total_fastq_reads
       = Inl (AssertionError
                (''The probability model parameters file is empty '' @ path params_file))"
  by (simp_all add: calculate_taxa_probabilities_def)

lemma dirichlet_abundances_asserts:
  "st_size ts_tv_file = 0 \<Longrightarrow>
     calculate_dirichlet_abundances ppf ts_tv_file pvaluesfile total_reads
       = Inl (AssertionError (''The ts_tv count file is empty '' @ path ts_tv_file))"
  "st_size ts_tv_file \<noteq> 0 \<Longrightarrow> st_size pvaluesfile = 0 \<Longrightarrow>
     calculate_dirichlet_abundances ppf ts_tv_file pvaluesfile total_reads
       = Inl (AssertionError (''The t-test p values file is empty '' @ path pvaluesfile))"
  "st_size ts_tv_file \<noteq> 0 \<Longrightarrow> st_size pvaluesfile \<noteq> 0 \<Longrightarrow> st_size total_reads = 0 \<Longrightarrow>
     calculate_dirichlet_abundances ppf ts_tv_file pvaluesfile total_reads
       = Inl (AssertionError (''The total fastq reads file is empty '' @ path total_reads))"
  by (simp_all add: calculate_dirichlet_abundances_def)

text \<open>
  Claim C9 at its failing input. \<open>calculate_taxa_probabilities\<close> does not check the
  total-reads file: when that file is empty and the other two are not, the run ends in
  the \<open>ValueError\<close> of \<open>float('')\<close>, whose message does not name the file.
\<close>

theorem taxa_probabilities_empty_total_reads:
  "calculate_taxa_probabilities
      \<lparr>path = ''ts_tv.csv'', st_size = 60, content =
         [\<lparr>Taxon = ''A'', Read_ID = ''r1'', Ts = 2, Tv = 1\<rparr>]\<rparr>
      \<lparr>path = ''params.json'', st_size = 80, content =
         \<lparr>ts_missing_val = 1, tv_missing_val = 0, delta_t = 1/2, delta_v = 1/4\<rparr>\<rparr>
      ''s'' \<lparr>path = ''total.count'', st_size = 0, content = None\<rparr>
     = Inl (ValueError ''could not convert string to float: '')"
  by (simp add: calculate_taxa_probabilities_def calculate_probabilities_def read_float_def)

section \<open>Properties of the abundance calculation\<close>

subsection \<open>Series and group sums\<close>

lemma fst_loc_set:
  "map fst (loc_set k v s) = (if k \<in> set (map fst s) then map fst s else map fst s @ [k])"
  by (auto simp: loc_set_def split_beta)

lemma distinct_loc_set:
  "distinct (map fst s) \<Longrightarrow> distinct (map fst (loc_set k v s))"
  by (simp add: fst_loc_set)

lemma length_loc_set:
  "length (loc_set k v s) = (if k \<in> set (map fst s) then length s else Suc (length s))"
  by (simp add: loc_set_def)

lemma map_of_loc_set: "map_of (loc_set k v s) = (map_of s)(k \<mapsto> v)"
proof (cases "k \<in> set (map fst s)")
  case True
  have "map_of (map (\<lambda>(k', v'). (k', if k' = k then v else v')) s) = (map_of s)(k \<mapsto> v)"
    using True
  proof (induction s)
    case Nil then show ?case by simp
  next
    case (Cons p s)
    show ?case
    proof (cases "k \<in> set (map fst s)")
      case True
      then show ?thesis using Cons.IH by (cases p) (auto simp: fun_eq_iff)
    next
      case False
      then have "map (\<lambda>(k', v'). (k', if k' = k then v else v')) s = s"
        by (induction s) auto
      then show ?thesis using Cons.prems False by (cases p) (auto simp: fun_eq_iff)
    qed
  qed
  then show ?thesis using True by (simp add: loc_set_def)
next
  case False
  then have "map_of s k = None" by (simp add: map_of_eq_None_iff)
  then show ?thesis using False
    by (auto simp: loc_set_def fun_eq_iff map_add_def split: option.splits)
qed

lemma sum_loc_set_new:
  fixes s :: "real series"
  shows "k \<notin> set (map fst s) \<Longrightarrow> sum_list (map snd (loc_set k v s)) = sum_list (map snd s) + v"
  by (simp add: loc_set_def)

lemma fst_groupby_sum [simp]: "map fst (groupby_sum col val rows) = group_keys col rows"
  by (simp add: groupby_sum_def comp_def)

lemma length_groupby_sum: "length (groupby_sum col val rows) = card (col ` set rows)"
proof -
  have "length (groupby_sum col val rows) = length (group_keys col rows)"
    by (simp add: groupby_sum_def)
  then show ?thesis
    using distinct_card [OF distinct_group_keys, of col rows] by simp
qed

lemma sum_no_key:
  fixes x :: real
  shows "k \<notin> set ks \<Longrightarrow> (\<Sum>k'\<leftarrow>ks. if k = k' then x else 0) = 0"
  by (induction ks) auto

lemma sum_single_key:
  fixes x :: real
  assumes "distinct ks" "k \<in> set ks"
  shows "(\<Sum>k'\<leftarrow>ks. if k = k' then x else 0) = x"
  using assms by (induction ks) (auto simp: sum_no_key)

lemma sum_groups:
  fixes val :: "'r \<Rightarrow> real"
  assumes "distinct ks" "col ` set rows \<subseteq> set ks"
  shows "(\<Sum>k\<leftarrow>ks. sum_list (map val (get_group col k rows))) = sum_list (map val rows)"
  using assms(2)
proof (induction rows)
  case Nil
  then show ?case by (simp add: get_group_def)
next
  case (Cons r rows)
  have mem: "col r \<in> set ks" using Cons.prems by simp
  have "(\<Sum>k\<leftarrow>ks. sum_list (map val (get_group col k (r # rows))))
      = (\<Sum>k\<leftarrow>ks. (if col r = k then val r else 0) + sum_list (map val (get_group col k rows)))"
    by (intro arg_cong [where f = sum_list] map_cong) (simp_all add: get_group_def)
  also have "\<dots> = (\<Sum>k\<leftarrow>ks. if col r = k then val r else 0)
                   + (\<Sum>k\<leftarrow>ks. sum_list (map val (get_group col k rows)))"
    by (simp add: sum_list_addf)
  also have "\<dots> = val r + sum_list (map val rows)"
    using sum_single_key [OF assms(1) mem] Cons.IH Cons.prems by simp
  finally show ?case by simp
qed

lemma sum_groupby_sum:
  fixes val :: "'r \<Rightarrow> real"
  shows "sum_list (map snd (groupby_sum col val rows)) = sum_list (map val rows)"
proof -
  have "sum_list (map snd (groupby_sum col val rows))
      = (\<Sum>k\<leftarrow>group_keys col rows. sum_list (map val (get_group col k rows)))"
    by (simp add: groupby_sum_def comp_def)
  then show ?thesis by (simp add: sum_groups)
qed

subsection \<open>The aggregation of the assignments\<close>

lemma nunique_card_image: "nunique (map col rows) = card (col ` set rows)"
  by (simp add: nunique_card)

lemma squeeze_Scalar: "squeeze s = Scalar v \<longleftrightarrow> (\<exists>k. s = [(k, v)])"
  by (auto simp: squeeze_def split: list.splits prod.splits)

lemma squeeze_EmptyFrame: "squeeze s = EmptyFrame \<longleftrightarrow> s = []"
  by (auto simp: squeeze_def split: list.splits prod.splits)

lemma squeeze_Series: "squeeze s = Series s' \<longleftrightarrow> s' = s \<and> 2 \<le> length s"
  by (auto simp: squeeze_def split: list.splits prod.splits)

lemma squeeze_long: "2 \<le> length s \<Longrightarrow> squeeze s = Series s"
  by (simp add: squeeze_Series)

lemma squeeze_not_Scalar: "length s \<noteq> 1 \<Longrightarrow> squeeze s \<noteq> Scalar v"
  by (auto simp: squeeze_Scalar)

lemma aggregate_assignments_Inr:
  assumes "aggregate_assignments tbl tot = Inr a"
  shows "\<exists>total_reads. read_float tot = Inr total_reads \<and>
           card (Read_ID_a ` set tbl) \<noteq> 1 \<and> 2 \<le> card (Taxon_a ` set tbl) \<and>
           a = loc_set ''Dark_Matter'' (total_reads - real (card (Read_ID_a ` set tbl)))
                 (loc_set ''Grey_Matter''
                    (sum_list (map snd (grey_matter_of
                                          (groupby_sum Read_ID_a Dirichlet_Assignment tbl))))
                    (groupby_sum Taxon_a Dirichlet_Assignment tbl))"
proof -
  let ?g = "groupby_sum Read_ID_a Dirichlet_Assignment tbl"
  let ?a = "groupby_sum Taxon_a Dirichlet_Assignment tbl"
  have g: "\<And>v. squeeze ?g \<noteq> Scalar v"
    using assms by (auto simp: aggregate_assignments_def Let_def)
  obtain a' where a': "squeeze ?a = Series a'"
    using assms by (cases "squeeze ?g"; cases "squeeze ?a") (auto simp: aggregate_assignments_def Let_def)
  then have a'_eq: "a' = ?a" and len: "2 \<le> length ?a"
    by (simp_all add: squeeze_Series)
  obtain total_reads where tot: "read_float tot = Inr total_reads"
    using assms a' by (cases "squeeze ?g"; cases "read_float tot")
      (auto simp: aggregate_assignments_def Let_def)
  have "length ?g \<noteq> 1"
  proof
    assume "length ?g = 1"
    then obtain p where "?g = [p]" by (cases ?g) auto
    then have "squeeze ?g = Scalar (snd p)" by (cases p) (simp add: squeeze_def)
    then show False using g by blast
  qed
  then have reads: "card (Read_ID_a ` set tbl) \<noteq> 1"
    by (simp add: length_groupby_sum)
  have taxa: "2 \<le> card (Taxon_a ` set tbl)"
    using len by (simp add: length_groupby_sum)
  have "a = loc_set ''Dark_Matter'' (total_reads - real (card (Read_ID_a ` set tbl)))
                 (loc_set ''Grey_Matter'' (sum_list (map snd (grey_matter_of ?g))) ?a)"
    using assms a' a'_eq tot
    by (cases "squeeze ?g") (auto simp: aggregate_assignments_def Let_def nunique_card_image)
  then show ?thesis using tot reads taxa by blast
qed

lemma aggregate_assignments_returns:
  assumes "read_float tot = Inr total_reads"
    and "card (Read_ID_a ` set tbl) \<noteq> 1" and "2 \<le> card (Taxon_a ` set tbl)"
  shows "aggregate_assignments tbl tot =
           Inr (loc_set ''Dark_Matter'' (total_reads - real (card (Read_ID_a ` set tbl)))
                 (loc_set ''Grey_Matter''
                    (sum_list (map snd (grey_matter_of
                                          (groupby_sum Read_ID_a Dirichlet_Assignment tbl))))
                    (groupby_sum Taxon_a Dirichlet_Assignment tbl)))"
proof -
  let ?g = "groupby_sum Read_ID_a Dirichlet_Assignment tbl"
  let ?a = "groupby_sum Taxon_a Dirichlet_Assignment tbl"
  have a: "squeeze ?a = Series ?a"
    using assms(3) by (simp add: squeeze_long length_groupby_sum)
  have "length ?g \<noteq> 1" using assms(2) by (simp add: length_groupby_sum)
  then have g: "\<And>v. squeeze ?g \<noteq> Scalar v" by (rule squeeze_not_Scalar)
  show ?thesis
  proof (cases "squeeze ?g")
    case (Scalar v)
    then show ?thesis using g by blast
  next
    case (Series s)
    then show ?thesis
      using a assms(1) by (simp add: aggregate_assignments_def Let_def nunique_card_image)
  next
    case EmptyFrame
    then show ?thesis
      using a assms(1) by (simp add: aggregate_assignments_def Let_def nunique_card_image)
  qed
qed

text \<open>
  A table without rows reaches line 60 with a frame that has no columns; the assignment
  there raises, whatever the total-reads file holds.
\<close>

lemma aggregate_assignments_Nil:
  "aggregate_assignments [] tot
     = Inl (ValueError ''cannot set a frame with no defined columns'')"
  by (simp add: aggregate_assignments_def squeeze_def groupby_sum_def group_keys_def)

lemma distinct_aggregate:
  assumes "aggregate_assignments tbl tot = Inr a"
  shows "distinct (map fst a)"
proof -
  have "distinct (map fst (groupby_sum Taxon_a Dirichlet_Assignment tbl))" by simp
  then show ?thesis
    using aggregate_assignments_Inr [OF assms] by (auto intro!: distinct_loc_set)
qed

subsection \<open>The loop of the abundance estimator\<close>

lemma abundance_loop_Inr:
  assumes "abundance_loop ppf t a is df = Inr rows" and "distinct is"
  shows "length rows = length df \<and>
         (\<forall>i<length df. if i \<in> set is then fill_row ppf t a (df ! i) = Inr (rows ! i)
                          else rows ! i = df ! i)"
  using assms
proof (induction "is" arbitrary: df)
  case Nil
  then show ?case by simp
next
  case (Cons idx rest)
  from Cons.prems(1) obtain row where row: "fill_row ppf t a (df ! idx) = Inr row"
    and run: "abundance_loop ppf t a rest (df[idx := row]) = Inr rows"
    by (auto split: sum.splits)
  have d: "distinct rest" and nin: "idx \<notin> set rest" using Cons.prems(2) by simp_all
  have IH: "length rows = length (df[idx := row]) \<and>
         (\<forall>i<length (df[idx := row]). if i \<in> set rest
             then fill_row ppf t a (df[idx := row] ! i) = Inr (rows ! i)
             else rows ! i = df[idx := row] ! i)"
    using Cons.IH [OF run d] .
  show ?case
  proof (intro conjI allI impI)
    show "length rows = length df" using IH by simp
  next
    fix i assume i: "i < length df"
    show "if i \<in> set (idx # rest) then fill_row ppf t a (df ! i) = Inr (rows ! i)
          else rows ! i = df ! i"
    proof (cases "i = idx")
      case True
      then have "rows ! i = row" using IH i nin by simp
      then show ?thesis using True row by simp
    next
      case False
      then have "df[idx := row] ! i = df ! i" by simp
      then show ?thesis using IH i False by auto
    qed
  qed
qed

lemma estimate_abundances_Inr:
  assumes "estimate_abundances ppf t a = Inr rows"
  shows "map (fill_row ppf t a) (init_posterior_abundance a) = map Inr rows"
proof -
  let ?df = "init_posterior_abundance a"
  have run: "abundance_loop ppf t a [0..<length ?df] ?df = Inr rows"
    using assms by (simp add: estimate_abundances_def Let_def)
  have *: "length rows = length ?df \<and>
         (\<forall>i<length ?df. if i \<in> set [0..<length ?df] then fill_row ppf t a (?df ! i) = Inr (rows ! i)
                          else rows ! i = ?df ! i)"
    using abundance_loop_Inr [OF run] by simp
  show ?thesis
  proof (rule nth_equalityI)
    show "length (map (fill_row ppf t a) ?df) = length (map Inr rows)" using * by simp
  next
    fix i assume "i < length (map (fill_row ppf t a) ?df)"
    then have i: "i < length ?df" by simp
    then have "fill_row ppf t a (?df ! i) = Inr (rows ! i)" using * by simp
    then show "map (fill_row ppf t a) ?df ! i = map Inr rows ! i" using i * by simp
  qed
qed

lemma mset_posterior_abundance_mean:
  "mset (map fst (posterior_abundance_mean a)) = mset (map fst a)"
proof -
  have "mset (posterior_abundance_mean a)
      = mset (map (\<lambda>(k, ai). (k, np_divide (ai + 1) (sum_list (map snd a) + real (length a)))) a)"
    by (simp add: posterior_abundance_mean_def Let_def)
  then have "mset (map fst (posterior_abundance_mean a))
      = mset (map fst (map (\<lambda>(k, ai). (k, np_divide (ai + 1) (sum_list (map snd a) + real (length a)))) a))"
    by (metis mset_map)
  then show ?thesis by (simp add: comp_def split_beta)
qed

lemma set_posterior_abundance_mean:
  "set (posterior_abundance_mean a)
     = (\<lambda>(k, ai). (k, np_divide (ai + 1) (sum_list (map snd a) + real (length a)))) ` set a"
  by (simp add: posterior_abundance_mean_def Let_def)

lemma Taxon_out_init:
  "map Taxon_out (init_posterior_abundance a) = map fst (posterior_abundance_mean a)"
  by (simp add: init_posterior_abundance_def new_row_def comp_def split_beta)

lemma fill_row_Inr:
  assumes "fill_row ppf t a row = Inr row'"
  shows "\<exists>ai lo hi p.
           map_of a (Taxon_out row) = Some ai \<and>
           ppf (25 / 1000) (ai + 1) (sum_list (map snd a) + real (length a) - ai - 1) = Fin lo \<and>
           ppf (975 / 1000) (ai + 1) (sum_list (map snd a) + real (length a) - ai - 1) = Fin hi \<and>
           map_of t (Taxon_out row) = Some p \<and>
           row' = row\<lparr> CI_lower_95 := Fin lo, CI_upper_95 := Fin hi,
                       Minimum_Read_Num := Fin (of_int (round_half_even (lo * sum_list (map snd a)))),
                       Maximum_Read_Num := Fin (of_int (round_half_even (hi * sum_list (map snd a)))),
                       Dirichlet_Read_Num := Fin ai,
                       Fisher_Exact_Pvalue := p \<rparr>"
proof -
  let ?b = "sum_list (map snd a)"
  from assms obtain ai where ai: "map_of a (Taxon_out row) = Some ai"
    by (auto simp: fill_row_def loc_get_def Let_def split: option.splits sum.splits)
  let ?lo = "ppf (25 / 1000) (ai + 1) (?b + real (length a) - ai - 1)"
  let ?hi = "ppf (975 / 1000) (ai + 1) (?b + real (length a) - ai - 1)"
  have ci: "beta_interval ppf 0.95 (ai + 1) (?b + real (length a) - ai - 1) = (?lo, ?hi)"
    by (simp add: beta_interval_def)
  from assms ai ci obtain l h p where
      l: "py_round (np_multiply ?lo ?b) = Inr l" and h: "py_round (np_multiply ?hi ?b) = Inr h"
      and p: "map_of t (Taxon_out row) = Some p"
      and r: "row' = row\<lparr> CI_lower_95 := ?lo, CI_upper_95 := ?hi,
                       Minimum_Read_Num := Fin (of_int l), Maximum_Read_Num := Fin (of_int h),
                       Dirichlet_Read_Num := Fin ai, Fisher_Exact_Pvalue := p \<rparr>"
    by (auto simp: fill_row_def loc_get_def Let_def split: option.splits sum.splits)
  from l obtain lo where lo: "?lo = Fin lo" "l = round_half_even (lo * ?b)"
    by (cases ?lo) (auto split: if_splits)
  from h obtain hi where hi: "?hi = Fin hi" "h = round_half_even (hi * ?b)"
    by (cases ?hi) (auto split: if_splits)
  show ?thesis using ai lo hi p r by auto
qed

lemma set_init_posterior_abundance:
  "r0 \<in> set (init_posterior_abundance a) \<longleftrightarrow>
     (\<exists>k ai. (k, ai) \<in> set a \<and>
        r0 = new_row k (np_divide (ai + 1) (sum_list (map snd a) + real (length a))))"
proof -
  have "set (init_posterior_abundance a)
      = (\<lambda>x. new_row (fst x) (np_divide (snd x + 1) (sum_list (map snd a) + real (length a)))) ` set a"
    by (simp add: init_posterior_abundance_def set_posterior_abundance_mean image_image split_beta)
  then show ?thesis by force
qed

lemma estimate_rows_origin:
  assumes run: "estimate_abundances ppf t a = Inr rows"
  shows "row \<in> set rows \<longleftrightarrow>
           (\<exists>k ai. (k, ai) \<in> set a \<and>
              fill_row ppf t a
                (new_row k (np_divide (ai + 1) (sum_list (map snd a) + real (length a)))) = Inr row)"
proof
  have eq: "Inr ` set rows = fill_row ppf t a ` set (init_posterior_abundance a)"
    using estimate_abundances_Inr [OF run] by (metis set_map)
  {
    assume "row \<in> set rows"
    then have "Inr row \<in> fill_row ppf t a ` set (init_posterior_abundance a)"
      using eq by blast
    then obtain r0 where r0: "r0 \<in> set (init_posterior_abundance a)" "fill_row ppf t a r0 = Inr row"
      by (metis (no_types, lifting) image_iff)
    from r0(1) obtain k ai where "(k, ai) \<in> set a"
        "r0 = new_row k (np_divide (ai + 1) (sum_list (map snd a) + real (length a)))"
      unfolding set_init_posterior_abundance by blast
    then show "\<exists>k ai. (k, ai) \<in> set a \<and>
              fill_row ppf t a
                (new_row k (np_divide (ai + 1) (sum_list (map snd a) + real (length a)))) = Inr row"
      using r0(2) by blast
  }
  {
    assume "\<exists>k ai. (k, ai) \<in> set a \<and>
              fill_row ppf t a
                (new_row k (np_divide (ai + 1) (sum_list (map snd a) + real (length a)))) = Inr row"
    then obtain k ai where kai: "(k, ai) \<in> set a"
        "fill_row ppf t a
           (new_row k (np_divide (ai + 1) (sum_list (map snd a) + real (length a)))) = Inr row"
      by blast
    have "new_row k (np_divide (ai + 1) (sum_list (map snd a) + real (length a)))
            \<in> set (init_posterior_abundance a)"
      unfolding set_init_posterior_abundance using kai(1) by blast
    then have "Inr row \<in> fill_row ppf t a ` set (init_posterior_abundance a)"
      using kai(2) by (metis (no_types, lifting) image_iff)
    then show "row \<in> set rows" using eq by blast
  }
qed

lemma estimate_rows_total:
  assumes run: "estimate_abundances ppf t a = Inr rows" and mem: "(k, ai) \<in> set a"
  shows "\<exists>row\<in>set rows.
           fill_row ppf t a
             (new_row k (np_divide (ai + 1) (sum_list (map snd a) + real (length a)))) = Inr row"
proof -
  have eq: "Inr ` set rows = fill_row ppf t a ` set (init_posterior_abundance a)"
    using estimate_abundances_Inr [OF run] by (metis set_map)
  have "new_row k (np_divide (ai + 1) (sum_list (map snd a) + real (length a)))
          \<in> set (init_posterior_abundance a)"
    unfolding set_init_posterior_abundance using mem by blast
  then have "fill_row ppf t a (new_row k (np_divide (ai + 1) (sum_list (map snd a) + real (length a))))
          \<in> Inr ` set rows"
    using eq by blast
  then show ?thesis by (metis (no_types, lifting) image_iff)
qed

lemma fill_row_Taxon_out:
  "fill_row ppf t a row = Inr row' \<Longrightarrow> Taxon_out row' = Taxon_out row"
  using fill_row_Inr [of ppf t a row row'] by auto

lemma fill_row_Mean:
  "fill_row ppf t a row = Inr row' \<Longrightarrow> Mean_Posterior_Abundance row' = Mean_Posterior_Abundance row"
  using fill_row_Inr [of ppf t a row row'] by auto

text \<open>
  Claim C3. When the estimator returns, the category \<open>name\<close> with mass \<open>a\<^sub>i\<close> has exactly
  one output row; with \<open>b\<close> the sum of the masses and \<open>k\<close> their number, that row holds the
  mean \<open>(a\<^sub>i + 1) / (b + k)\<close>, the interval bounds \<open>lo\<close> and \<open>hi\<close> that the quantile function
  of the Beta distribution gives at 0.025 and 0.975 for the shape parameters \<open>a\<^sub>i + 1\<close> and
  \<open>b + k - a\<^sub>i - 1\<close>, the read numbers \<open>round (lo * b)\<close> and \<open>round (hi * b)\<close>, and the raw
  mass \<open>a\<^sub>i\<close>.
\<close>

theorem abundance_estimates:
  assumes run: "estimate_abundances ppf t_test a = Inr rows"
    and dist: "distinct (map fst a)"
    and mem: "(name, ai) \<in> set a"
    and nz: "sum_list (map snd a) + real (length a) \<noteq> 0"
  shows "(\<exists>!row. row \<in> set rows \<and> Taxon_out row = name) \<and>
         (\<forall>row\<in>set rows. Taxon_out row = name \<longrightarrow>
            Mean_Posterior_Abundance row = Fin ((ai + 1) / (sum_list (map snd a) + real (length a))) \<and>
            (\<exists>lo hi.
               ppf 0.025 (ai + 1) (sum_list (map snd a) + real (length a) - ai - 1) = Fin lo \<and>
               ppf 0.975 (ai + 1) (sum_list (map snd a) + real (length a) - ai - 1) = Fin hi \<and>
               CI_lower_95 row = Fin lo \<and> CI_upper_95 row = Fin hi \<and>
               Minimum_Read_Num row = Fin (of_int (round_half_even (lo * sum_list (map snd a)))) \<and>
               Maximum_Read_Num row = Fin (of_int (round_half_even (hi * sum_list (map snd a))))) \<and>
            Dirichlet_Read_Num row = Fin ai)"
proof -
  let ?b = "sum_list (map snd a)"
  let ?r0 = "new_row name (np_divide (ai + 1) (?b + real (length a)))"
  have look: "map_of a name = Some ai"
    using dist mem by (rule map_of_is_SomeI)
  have key: "fill_row ppf t_test a ?r0 = Inr row" if "row \<in> set rows" "Taxon_out row = name" for row
  proof -
    from that(1) obtain k a0 where ka: "(k, a0) \<in> set a"
        "fill_row ppf t_test a (new_row k (np_divide (a0 + 1) (?b + real (length a)))) = Inr row"
      using estimate_rows_origin [OF run] by blast
    have "Taxon_out row = k"
      using fill_row_Taxon_out [OF ka(2)] by (simp add: new_row_def)
    then have k: "k = name" using that(2) by simp
    then have "map_of a name = Some a0" using dist ka(1) by (simp add: map_of_is_SomeI)
    then have "a0 = ai" using look by simp
    then show ?thesis using ka(2) k by simp
  qed
  obtain r where r: "r \<in> set rows" "fill_row ppf t_test a ?r0 = Inr r"
    using estimate_rows_total [OF run mem] by blast
  have rname: "Taxon_out r = name"
    using fill_row_Taxon_out [OF r(2)] by (simp add: new_row_def)
  have ex1: "\<exists>!row. row \<in> set rows \<and> Taxon_out row = name"
  proof (rule ex1I [of _ r])
    show "r \<in> set rows \<and> Taxon_out r = name" using r(1) rname by simp
  next
    fix row assume "row \<in> set rows \<and> Taxon_out row = name"
    then have "fill_row ppf t_test a ?r0 = Inr row" using key by blast
    then show "row = r" using r(2) by simp
  qed
  have vals: "Mean_Posterior_Abundance row = Fin ((ai + 1) / (?b + real (length a))) \<and>
            (\<exists>lo hi.
               ppf 0.025 (ai + 1) (?b + real (length a) - ai - 1) = Fin lo \<and>
               ppf 0.975 (ai + 1) (?b + real (length a) - ai - 1) = Fin hi \<and>
               CI_lower_95 row = Fin lo \<and> CI_upper_95 row = Fin hi \<and>
               Minimum_Read_Num row = Fin (of_int (round_half_even (lo * ?b))) \<and>
               Maximum_Read_Num row = Fin (of_int (round_half_even (hi * ?b)))) \<and>
            Dirichlet_Read_Num row = Fin ai"
    if "row \<in> set rows" "Taxon_out row = name" for row
  proof -
    have f: "fill_row ppf t_test a ?r0 = Inr row" using that by (rule key)
    have t0: "Taxon_out ?r0 = name" by (simp add: new_row_def)
    obtain a1 lo hi p where
        a1: "map_of a name = Some a1"
        and lo: "ppf (25 / 1000) (a1 + 1) (?b + real (length a) - a1 - 1) = Fin lo"
        and hi: "ppf (975 / 1000) (a1 + 1) (?b + real (length a) - a1 - 1) = Fin hi"
        and row: "row = ?r0\<lparr> CI_lower_95 := Fin lo, CI_upper_95 := Fin hi,
                       Minimum_Read_Num := Fin (of_int (round_half_even (lo * ?b))),
                       Maximum_Read_Num := Fin (of_int (round_half_even (hi * ?b))),
                       Dirichlet_Read_Num := Fin a1,
                       Fisher_Exact_Pvalue := p \<rparr>"
      using fill_row_Inr [OF f] unfolding t0 by blast
    have a1_eq: "a1 = ai" using a1 look by simp
    have mean: "Mean_Posterior_Abundance row = Fin ((ai + 1) / (?b + real (length a)))"
      using nz by (simp add: row new_row_def np_divide_def)
    have q: "(0.025 :: real) = 25 / 1000" "(0.975 :: real) = 975 / 1000" by simp_all
    show ?thesis
      using mean lo hi unfolding a1_eq q by (auto simp: row new_row_def a1_eq)
  qed
  show ?thesis using ex1 vals by blast
qed

theorem abundance_estimates_witness:
  "estimate_abundances example_ppf
     [(''A'', Fin (1/2)), (''B'', Fin (1/4)), (''Dark_Matter'', NaN), (''Grey_Matter'', NaN)]
     [(''A'', 1::real), (''B'', 1), (''Grey_Matter'', 0), (''Dark_Matter'', 2)]
   = Inr [\<lparr>Taxon_out = ''Dark_Matter'', Mean_Posterior_Abundance = Fin (3/8),
        CI_lower_95 = Fin 0.025, CI_upper_95 = Fin 0.975,
        Minimum_Read_Num = Fin 0, Maximum_Read_Num = Fin 4,
        Dirichlet_Read_Num = Fin 2, Fisher_Exact_Pvalue = NaN\<rparr>,
      \<lparr>Taxon_out = ''A'', Mean_Posterior_Abundance = Fin (1/4),
        CI_lower_95 = Fin 0.025, CI_upper_95 = Fin 0.975,
        Minimum_Read_Num = Fin 0, Maximum_Read_Num = Fin 4,
        Dirichlet_Read_Num = Fin 1, Fisher_Exact_Pvalue = Fin (1/2)\<rparr>,
      \<lparr>Taxon_out = ''B'', Mean_Posterior_Abundance = Fin (1/4),
        CI_lower_95 = Fin 0.025, CI_upper_95 = Fin 0.975,
        Minimum_Read_Num = Fin 0, Maximum_Read_Num = Fin 4,
        Dirichlet_Read_Num = Fin 1, Fisher_Exact_Pvalue = Fin (1/4)\<rparr>,
      \<lparr>Taxon_out = ''Grey_Matter'', Mean_Posterior_Abundance = Fin (1/8),
        CI_lower_95 = Fin 0.025, CI_upper_95 = Fin 0.975,
        Minimum_Read_Num = Fin 0, Maximum_Read_Num = Fin 4,
        Dirichlet_Read_Num = Fin 0, Fisher_Exact_Pvalue = NaN\<rparr>] \<and>
   distinct (map fst [(''A'', 1::real), (''B'', 1), (''Grey_Matter'', 0), (''Dark_Matter'', 2)]) \<and>
   (''A'', 1) \<in> set [(''A'', 1::real), (''B'', 1), (''Grey_Matter'', 0), (''Dark_Matter'', 2)] \<and>
   sum_list (map snd [(''A'', 1::real), (''B'', 1), (''Grey_Matter'', 0), (''Dark_Matter'', 2)]) + real (length [(''A'', 1::real), (''B'', 1), (''Grey_Matter'', 0), (''Dark_Matter'', 2)]) \<noteq> 0 \<and>
   \<lparr>Taxon_out = ''A'', Mean_Posterior_Abundance = Fin (1/4),
        CI_lower_95 = Fin 0.025, CI_upper_95 = Fin 0.975,
        Minimum_Read_Num = Fin 0, Maximum_Read_Num = Fin 4,
        Dirichlet_Read_Num = Fin 1, Fisher_Exact_Pvalue = Fin (1/2)\<rparr>
     \<in> set [\<lparr>Taxon_out = ''Dark_Matter'', Mean_Posterior_Abundance = Fin (3/8),
        CI_lower_95 = Fin 0.025, CI_upper_95 = Fin 0.975,
        Minimum_Read_Num = Fin 0, Maximum_Read_Num = Fin 4,
        Dirichlet_Read_Num = Fin 2, Fisher_Exact_Pvalue = NaN\<rparr>,
      \<lparr>Taxon_out = ''A'', Mean_Posterior_Abundance = Fin (1/4),
        CI_lower_95 = Fin 0.025, CI_upper_95 = Fin 0.975,
        Minimum_Read_Num = Fin 0, Maximum_Read_Num = Fin 4,
        Dirichlet_Read_Num = Fin 1, Fisher_Exact_Pvalue = Fin (1/2)\<rparr>,
      \<lparr>Taxon_out = ''B'', Mean_Posterior_Abundance = Fin (1/4),
        CI_lower_95 = Fin 0.025, CI_upper_95 = Fin 0.975,
        Minimum_Read_Num = Fin 0, Maximum_Read_Num = Fin 4,
        Dirichlet_Read_Num = Fin 1, Fisher_Exact_Pvalue = Fin (1/4)\<rparr>,
      \<lparr>Taxon_out = ''Grey_Matter'', Mean_Posterior_Abundance = Fin (1/8),
        CI_lower_95 = Fin 0.025, CI_upper_95 = Fin 0.975,
        Minimum_Read_Num = Fin 0, Maximum_Read_Num = Fin 4,
        Dirichlet_Read_Num = Fin 0, Fisher_Exact_Pvalue = NaN\<rparr>] \<and>
   Taxon_out (\<lparr>Taxon_out = ''A'', Mean_Posterior_Abundance = Fin (1/4),
        CI_lower_95 = Fin 0.025, CI_upper_95 = Fin 0.975,
        Minimum_Read_Num = Fin 0, Maximum_Read_Num = Fin 4,
        Dirichlet_Read_Num = Fin 1, Fisher_Exact_Pvalue = Fin (1/2)\<rparr>) = ''A'' \<and>
   Mean_Posterior_Abundance 
     (\<lparr>Taxon_out = ''A'', Mean_Posterior_Abundance = Fin (1/4),
        CI_lower_95 = Fin 0.025, CI_upper_95 = Fin 0.975,
        Minimum_Read_Num = Fin 0, Maximum_Read_Num = Fin 4,
        Dirichlet_Read_Num = Fin 1, Fisher_Exact_Pvalue = Fin (1/2)\<rparr>) = Fin ((1 + 1) / (sum_list (map snd [(''A'', 1::real), (''B'', 1), (''Grey_Matter'', 0), (''Dark_Matter'', 2)]) + real (length [(''A'', 1::real), (''B'', 1), (''Grey_Matter'', 0), (''Dark_Matter'', 2)]))) \<and>
   (\<exists>lo hi.
      example_ppf 0.025 (1 + 1) (sum_list (map snd [(''A'', 1::real), (''B'', 1), (''Grey_Matter'', 0), (''Dark_Matter'', 2)]) + real (length [(''A'', 1::real), (''B'', 1), (''Grey_Matter'', 0), (''Dark_Matter'', 2)]) - 1 - 1) = Fin lo \<and>
      example_ppf 0.975 (1 + 1) (sum_list (map snd [(''A'', 1::real), (''B'', 1), (''Grey_Matter'', 0), (''Dark_Matter'', 2)]) + real (length [(''A'', 1::real), (''B'', 1), (''Grey_Matter'', 0), (''Dark_Matter'', 2)]) - 1 - 1) = Fin hi \<and>
      CI_lower_95 
     (\<lparr>Taxon_out = ''A'', Mean_Posterior_Abundance = Fin (1/4),
        CI_lower_95 = Fin 0.025, CI_upper_95 = Fin 0.975,
        Minimum_Read_Num = Fin 0, Maximum_Read_Num = Fin 4,
        Dirichlet_Read_Num = Fin 1, Fisher_Exact_Pvalue = Fin (1/2)\<rparr>) = Fin lo \<and> CI_upper_95 
     (\<lparr>Taxon_out = ''A'', Mean_Posterior_Abundance = Fin (1/4),
        CI_lower_95 = Fin 0.025, CI_upper_95 = Fin 0.975,
        Minimum_Read_Num = Fin 0, Maximum_Read_Num = Fin 4,
        Dirichlet_Read_Num = Fin 1, Fisher_Exact_Pvalue = Fin (1/2)\<rparr>) = Fin hi \<and>
      Minimum_Read_Num 
     (\<lparr>Taxon_out = ''A'', Mean_Posterior_Abundance = Fin (1/4),
        CI_lower_95 = Fin 0.025, CI_upper_95 = Fin 0.975,
        Minimum_Read_Num = Fin 0, Maximum_Read_Num = Fin 4,
        Dirichlet_Read_Num = Fin 1, Fisher_Exact_Pvalue = Fin (1/2)\<rparr>) = Fin (of_int (round_half_even (lo * sum_list (map snd [(''A'', 1::real), (''B'', 1), (''Grey_Matter'', 0), (''Dark_Matter'', 2)])))) \<and>
      Maximum_Read_Num 
     (\<lparr>Taxon_out = ''A'', Mean_Posterior_Abundance = Fin (1/4),
        CI_lower_95 = Fin 0.025, CI_upper_95 = Fin 0.975,
        Minimum_Read_Num = Fin 0, Maximum_Read_Num = Fin 4,
        Dirichlet_Read_Num = Fin 1, Fisher_Exact_Pvalue = Fin (1/2)\<rparr>) = Fin (of_int (round_half_even (hi * sum_list (map snd [(''A'', 1::real), (''B'', 1), (''Grey_Matter'', 0), (''Dark_Matter'', 2)]))))) \<and>
   Dirichlet_Read_Num 
     (\<lparr>Taxon_out = ''A'', Mean_Posterior_Abundance = Fin (1/4),
        CI_lower_95 = Fin 0.025, CI_upper_95 = Fin 0.975,
        Minimum_Read_Num = Fin 0, Maximum_Read_Num = Fin 4,
        Dirichlet_Read_Num = Fin 1, Fisher_Exact_Pvalue = Fin (1/2)\<rparr>) = Fin 1"
proof -
  have run: "estimate_abundances example_ppf
     [(''A'', Fin (1/2)), (''B'', Fin (1/4)), (''Dark_Matter'', NaN), (''Grey_Matter'', NaN)]
     [(''A'', 1::real), (''B'', 1), (''Grey_Matter'', 0), (''Dark_Matter'', 2)]
   = Inr [\<lparr>Taxon_out = ''Dark_Matter'', Mean_Posterior_Abundance = Fin (3/8),
        CI_lower_95 = Fin 0.025, CI_upper_95 = Fin 0.975,
        Minimum_Read_Num = Fin 0, Maximum_Read_Num = Fin 4,
        Dirichlet_Read_Num = Fin 2, Fisher_Exact_Pvalue = NaN\<rparr>,
      \<lparr>Taxon_out = ''A'', Mean_Posterior_Abundance = Fin (1/4),
        CI_lower_95 = Fin 0.025, CI_upper_95 = Fin 0.975,
        Minimum_Read_Num = Fin 0, Maximum_Read_Num = Fin 4,
        Dirichlet_Read_Num = Fin 1, Fisher_Exact_Pvalue = Fin (1/2)\<rparr>,
      \<lparr>Taxon_out = ''B'', Mean_Posterior_Abundance = Fin (1/4),
        CI_lower_95 = Fin 0.025, CI_upper_95 = Fin 0.975,
        Minimum_Read_Num = Fin 0, Maximum_Read_Num = Fin 4,
        Dirichlet_Read_Num = Fin 1, Fisher_Exact_Pvalue = Fin (1/4)\<rparr>,
      \<lparr>Taxon_out = ''Grey_Matter'', Mean_Posterior_Abundance = Fin (1/8),
        CI_lower_95 = Fin 0.025, CI_upper_95 = Fin 0.975,
        Minimum_Read_Num = Fin 0, Maximum_Read_Num = Fin 4,
        Dirichlet_Read_Num = Fin 0, Fisher_Exact_Pvalue = NaN\<rparr>]"
    by (simp add: estimate_abundances_def init_posterior_abundance_def posterior_abundance_mean_def
        new_row_def sort_values_desc_def np_divide_def fill_row_def loc_get_def beta_interval_def
        example_ppf_def round_half_even_def Let_def)
  have dist: "distinct (map fst [(''A'', 1::real), (''B'', 1), (''Grey_Matter'', 0), (''Dark_Matter'', 2)])"
    by simp
  have mem: "(''A'', 1) \<in> set [(''A'', 1::real), (''B'', 1), (''Grey_Matter'', 0), (''Dark_Matter'', 2)]"
    by simp
  have nz: "sum_list (map snd [(''A'', 1::real), (''B'', 1), (''Grey_Matter'', 0), (''Dark_Matter'', 2)]) + real (length [(''A'', 1::real), (''B'', 1), (''Grey_Matter'', 0), (''Dark_Matter'', 2)]) \<noteq> 0"
    by simp
  have row: "\<lparr>Taxon_out = ''A'', Mean_Posterior_Abundance = Fin (1/4),
        CI_lower_95 = Fin 0.025, CI_upper_95 = Fin 0.975,
        Minimum_Read_Num = Fin 0, Maximum_Read_Num = Fin 4,
        Dirichlet_Read_Num = Fin 1, Fisher_Exact_Pvalue = Fin (1/2)\<rparr>
     \<in> set [\<lparr>Taxon_out = ''Dark_Matter'', Mean_Posterior_Abundance = Fin (3/8),
        CI_lower_95 = Fin 0.025, CI_upper_95 = Fin 0.975,
        Minimum_Read_Num = Fin 0, Maximum_Read_Num = Fin 4,
        Dirichlet_Read_Num = Fin 2, Fisher_Exact_Pvalue = NaN\<rparr>,
      \<lparr>Taxon_out = ''A'', Mean_Posterior_Abundance = Fin (1/4),
        CI_lower_95 = Fin 0.025, CI_upper_95 = Fin 0.975,
        Minimum_Read_Num = Fin 0, Maximum_Read_Num = Fin 4,
        Dirichlet_Read_Num = Fin 1, Fisher_Exact_Pvalue = Fin (1/2)\<rparr>,
      \<lparr>Taxon_out = ''B'', Mean_Posterior_Abundance = Fin (1/4),
        CI_lower_95 = Fin 0.025, CI_upper_95 = Fin 0.975,
        Minimum_Read_Num = Fin 0, Maximum_Read_Num = Fin 4,
        Dirichlet_Read_Num = Fin 1, Fisher_Exact_Pvalue = Fin (1/4)\<rparr>,
      \<lparr>Taxon_out = ''Grey_Matter'', Mean_Posterior_Abundance = Fin (1/8),
        CI_lower_95 = Fin 0.025, CI_upper_95 = Fin 0.975,
        Minimum_Read_Num = Fin 0, Maximum_Read_Num = Fin 4,
        Dirichlet_Read_Num = Fin 0, Fisher_Exact_Pvalue = NaN\<rparr>]"
    by simp
  have name: "Taxon_out (\<lparr>Taxon_out = ''A'', Mean_Posterior_Abundance = Fin (1/4),
        CI_lower_95 = Fin 0.025, CI_upper_95 = Fin 0.975,
        Minimum_Read_Num = Fin 0, Maximum_Read_Num = Fin 4,
        Dirichlet_Read_Num = Fin 1, Fisher_Exact_Pvalue = Fin (1/2)\<rparr>) = ''A''"
    by simp
  note inst = abundance_estimates [OF run dist mem nz, THEN conjunct2]
  note vals = bspec [OF inst row, THEN mp, OF name]
  show ?thesis
    by (rule conjI [OF run conjI [OF dist conjI [OF mem conjI [OF nz conjI [OF row
          conjI [OF name vals]]]]]])
qed

subsection \<open>The whole abundance script\<close>

lemma calculate_dirichlet_abundances_Inr:
  assumes "calculate_dirichlet_abundances ppf f pf tot = Inr rows"
  shows "\<exists>t a. t_test_vector (content pf) = Inr t \<and>
               aggregate_assignments (content f) tot = Inr a \<and>
               estimate_abundances ppf t a = Inr rows"
  using assms
  by (auto simp: calculate_dirichlet_abundances_def read_csv_def split: if_splits sum.splits)

lemma dirichlet_column:
  assumes run: "estimate_abundances ppf t a = Inr rows" and dist: "distinct (map fst a)"
  shows "\<exists>ms. map Dirichlet_Read_Num rows = map Fin ms \<and> mset ms = mset (map snd a)"
proof -
  let ?init = "init_posterior_abundance a"
  let ?ms = "map (\<lambda>r0. the (map_of a (Taxon_out r0))) ?init"
  have eq: "map (fill_row ppf t a) ?init = map Inr rows"
    using run by (rule estimate_abundances_Inr)
  then have len: "length rows = length ?init" by (metis length_map)
  have col: "map Dirichlet_Read_Num rows = map Fin ?ms"
  proof (rule nth_equalityI)
    show "length (map Dirichlet_Read_Num rows) = length (map Fin ?ms)" using len by simp
  next
    fix i assume "i < length (map Dirichlet_Read_Num rows)"
    then have i: "i < length rows" "i < length ?init" using len by simp_all
    have "map (fill_row ppf t a) ?init ! i = map Inr rows ! i" using eq by simp
    then have f: "fill_row ppf t a (?init ! i) = Inr (rows ! i)" using i by simp
    obtain ai where "map_of a (Taxon_out (?init ! i)) = Some ai"
        "Dirichlet_Read_Num (rows ! i) = Fin ai"
      using fill_row_Inr [OF f] by auto
    then show "map Dirichlet_Read_Num rows ! i = map Fin ?ms ! i" using i by simp
  qed
  have "?ms = map (\<lambda>k. the (map_of a k)) (map Taxon_out ?init)"
    by (simp add: comp_def)
  then have "mset ?ms = image_mset (\<lambda>k. the (map_of a k)) (mset (map Taxon_out ?init))"
    by (simp only: mset_map)
  also have "\<dots> = image_mset (\<lambda>k. the (map_of a k)) (mset (map fst a))"
    by (simp only: Taxon_out_init mset_posterior_abundance_mean)
  also have "\<dots> = mset (map (\<lambda>k. the (map_of a k)) (map fst a))"
    by (simp only: mset_map)
  also have "map (\<lambda>k. the (map_of a k)) (map fst a) = map snd a"
  proof -
    have "map (\<lambda>p. the (map_of a (fst p))) a = map snd a"
    proof (rule map_cong [OF refl])
      fix p assume "p \<in> set a"
      then have "map_of a (fst p) = Some (snd p)" using dist by (simp add: map_of_is_SomeI)
      then show "the (map_of a (fst p)) = snd p" by simp
    qed
    then show ?thesis by (simp add: comp_def)
  qed
  finally have "mset ?ms = mset (map snd a)" .
  then show ?thesis using col by blast
qed

lemma sum_grey_matter:
  assumes "\<forall>p\<in>set g. snd p = 0 \<or> snd p = 1"
  shows "sum_list (map snd (grey_matter_of g)) = real (length g) - sum_list (map snd g)"
  using assms by (induction g) (auto simp: grey_matter_of_def)

lemma sum_aggregate:
  assumes agg: "aggregate_assignments tbl tot = Inr a"
    and sums: "\<forall>k\<in>Read_ID_a ` set tbl.
                 sum_list (map Dirichlet_Assignment (get_group Read_ID_a k tbl)) = 0 \<or>
                 sum_list (map Dirichlet_Assignment (get_group Read_ID_a k tbl)) = 1"
    and grey: "''Grey_Matter'' \<notin> Taxon_a ` set tbl"
    and dark: "''Dark_Matter'' \<notin> Taxon_a ` set tbl"
  shows "read_float tot = Inr (sum_list (map snd a))"
proof -
  let ?g = "groupby_sum Read_ID_a Dirichlet_Assignment tbl"
  let ?s = "groupby_sum Taxon_a Dirichlet_Assignment tbl"
  let ?grey = "sum_list (map snd (grey_matter_of ?g))"
  obtain total_reads where tot: "read_float tot = Inr total_reads"
    and a: "a = loc_set ''Dark_Matter'' (total_reads - real (card (Read_ID_a ` set tbl)))
                 (loc_set ''Grey_Matter'' ?grey ?s)"
    using aggregate_assignments_Inr [OF agg] by blast
  have g01: "\<forall>p\<in>set ?g. snd p = 0 \<or> snd p = 1"
    using sums by (auto simp: groupby_sum_def)
  have grey_val: "?grey = real (card (Read_ID_a ` set tbl)) - sum_list (map Dirichlet_Assignment tbl)"
    using sum_grey_matter [OF g01] by (simp add: length_groupby_sum sum_groupby_sum)
  have k1: "''Grey_Matter'' \<notin> set (map fst ?s)" using grey by simp
  have s1: "sum_list (map snd (loc_set ''Grey_Matter'' ?grey ?s))
              = sum_list (map Dirichlet_Assignment tbl) + ?grey"
    using sum_loc_set_new [OF k1] by (simp add: sum_groupby_sum)
  have k2: "''Dark_Matter'' \<notin> set (map fst (loc_set ''Grey_Matter'' ?grey ?s))"
    using dark k1 by (simp add: fst_loc_set)
  have "sum_list (map snd a)
          = sum_list (map Dirichlet_Assignment tbl) + ?grey
            + (total_reads - real (card (Read_ID_a ` set tbl)))"
    unfolding a using sum_loc_set_new [OF k2] s1 by simp
  then have "sum_list (map snd a) = total_reads" using grey_val by simp
  then show ?thesis using tot by simp
qed

text \<open>
  Claim C4, as the code has it. When every read of the table has assignment weights that
  sum to exactly 0 or exactly 1 and no taxon of the table is named \<open>Grey_Matter\<close> or
  \<open>Dark_Matter\<close>, the \<open>Dirichlet.Read.Num\<close> column of the output (the masses of the
  named taxa and of the two pseudo-taxa) holds finite numbers whose sum is the number in
  the total-reads file.
\<close>

theorem mass_sums_to_total:
  assumes run: "calculate_dirichlet_abundances ppf f pf tot = Inr rows"
    and sums: "\<forall>k\<in>Read_ID_a ` set (content f).
      sum_list (map Dirichlet_Assignment (filter (\<lambda>r. Read_ID_a r = k) (content f))) = 0 \<or>
      sum_list (map Dirichlet_Assignment (filter (\<lambda>r. Read_ID_a r = k) (content f))) = 1"
    and grey: "''Grey_Matter'' \<notin> Taxon_a ` set (content f)"
    and dark: "''Dark_Matter'' \<notin> Taxon_a ` set (content f)"
  shows "\<exists>ms. map Dirichlet_Read_Num rows = map Fin ms \<and> read_float tot = Inr (sum_list ms)"
proof -
  obtain t a where agg: "aggregate_assignments (content f) tot = Inr a"
    and est: "estimate_abundances ppf t a = Inr rows"
    using calculate_dirichlet_abundances_Inr [OF run] by blast
  have sums': "\<forall>k\<in>Read_ID_a ` set (content f).
                 sum_list (map Dirichlet_Assignment (get_group Read_ID_a k (content f))) = 0 \<or>
                 sum_list (map Dirichlet_Assignment (get_group Read_ID_a k (content f))) = 1"
    using sums by (simp add: get_group_def)
  have tot: "read_float tot = Inr (sum_list (map snd a))"
    using agg sums' grey dark by (rule sum_aggregate)
  obtain ms where ms: "map Dirichlet_Read_Num rows = map Fin ms" "mset ms = mset (map snd a)"
    using dirichlet_column [OF est distinct_aggregate [OF agg]] by blast
  have "sum_list ms = sum_list (map snd a)"
    using ms(2) by (metis sum_mset_sum_list)
  then show ?thesis using ms(1) tot by auto
qed

theorem mass_sums_to_total_witness:
  "calculate_dirichlet_abundances example_ppf
     \<lparr>path = ''ts_tv.csv'', st_size = 90, content =
       [\<lparr>Taxon_a = ''A'', Read_ID_a = ''r1'', Dirichlet_Assignment = 1\<rparr>,
        \<lparr>Taxon_a = ''B'', Read_ID_a = ''r1'', Dirichlet_Assignment = 0\<rparr>,
        \<lparr>Taxon_a = ''A'', Read_ID_a = ''r2'', Dirichlet_Assignment = 0\<rparr>,
        \<lparr>Taxon_a = ''B'', Read_ID_a = ''r2'', Dirichlet_Assignment = 1\<rparr>]\<rparr>
     \<lparr>path = ''pvalues.tsv'', st_size = 20, content =
       [\<lparr>species = ''A'', pvalue = 1/2\<rparr>, \<lparr>species = ''B'', pvalue = 1/4\<rparr>]\<rparr>
     \<lparr>path = ''total.count'', st_size = 2, content = Some 4\<rparr>
   = Inr [\<lparr>Taxon_out = ''Dark_Matter'', Mean_Posterior_Abundance = Fin (3/8),
        CI_lower_95 = Fin 0.025, CI_upper_95 = Fin 0.975,
        Minimum_Read_Num = Fin 0, Maximum_Read_Num = Fin 4,
        Dirichlet_Read_Num = Fin (2), Fisher_Exact_Pvalue = NaN\<rparr>,
      \<lparr>Taxon_out = ''A'', Mean_Posterior_Abundance = Fin (1/4),
        CI_lower_95 = Fin 0.025, CI_upper_95 = Fin 0.975,
        Minimum_Read_Num = Fin 0, Maximum_Read_Num = Fin 4,
        Dirichlet_Read_Num = Fin (1), Fisher_Exact_Pvalue = Fin (1/2)\<rparr>,
      \<lparr>Taxon_out = ''B'', Mean_Posterior_Abundance = Fin (1/4),
        CI_lower_95 = Fin 0.025, CI_upper_95 = Fin 0.975,
        Minimum_Read_Num = Fin 0, Maximum_Read_Num = Fin 4,
        Dirichlet_Read_Num = Fin (1), Fisher_Exact_Pvalue = Fin (1/4)\<rparr>,
      \<lparr>Taxon_out = ''Grey_Matter'', Mean_Posterior_Abundance = Fin (1/8),
        CI_lower_95 = Fin 0.025, CI_upper_95 = Fin 0.975,
        Minimum_Read_Num = Fin 0, Maximum_Read_Num = Fin 4,
        Dirichlet_Read_Num = Fin (0), Fisher_Exact_Pvalue = NaN\<rparr>] \<and>
   Read_ID_a ` set (content \<lparr>path = ''ts_tv.csv'', st_size = 90, content =
       [\<lparr>Taxon_a = ''A'', Read_ID_a = ''r1'', Dirichlet_Assignment = 1\<rparr>,
        \<lparr>Taxon_a = ''B'', Read_ID_a = ''r1'', Dirichlet_Assignment = 0\<rparr>,
        \<lparr>Taxon_a = ''A'', Read_ID_a = ''r2'', Dirichlet_Assignment = 0\<rparr>,
        \<lparr>Taxon_a = ''B'', Read_ID_a = ''r2'', Dirichlet_Assignment = 1\<rparr>]\<rparr>) = {''r1'', ''r2''} \<and>
   sum_list (map Dirichlet_Assignment (filter (\<lambda>r. Read_ID_a r = ''r1'') (content \<lparr>path = ''ts_tv.csv'', st_size = 90, content =
       [\<lparr>Taxon_a = ''A'', Read_ID_a = ''r1'', Dirichlet_Assignment = 1\<rparr>,
        \<lparr>Taxon_a = ''B'', Read_ID_a = ''r1'', Dirichlet_Assignment = 0\<rparr>,
        \<lparr>Taxon_a = ''A'', Read_ID_a = ''r2'', Dirichlet_Assignment = 0\<rparr>,
        \<lparr>Taxon_a = ''B'', Read_ID_a = ''r2'', Dirichlet_Assignment = 1\<rparr>]\<rparr>))) = 1 \<and>
   sum_list (map Dirichlet_Assignment (filter (\<lambda>r. Read_ID_a r = ''r2'') (content \<lparr>path = ''ts_tv.csv'', st_size = 90, content =
       [\<lparr>Taxon_a = ''A'', Read_ID_a = ''r1'', Dirichlet_Assignment = 1\<rparr>,
        \<lparr>Taxon_a = ''B'', Read_ID_a = ''r1'', Dirichlet_Assignment = 0\<rparr>,
        \<lparr>Taxon_a = ''A'', Read_ID_a = ''r2'', Dirichlet_Assignment = 0\<rparr>,
        \<lparr>Taxon_a = ''B'', Read_ID_a = ''r2'', Dirichlet_Assignment = 1\<rparr>]\<rparr>))) = 1 \<and>
   ''Grey_Matter'' \<notin> Taxon_a ` set (content \<lparr>path = ''ts_tv.csv'', st_size = 90, content =
       [\<lparr>Taxon_a = ''A'', Read_ID_a = ''r1'', Dirichlet_Assignment = 1\<rparr>,
        \<lparr>Taxon_a = ''B'', Read_ID_a = ''r1'', Dirichlet_Assignment = 0\<rparr>,
        \<lparr>Taxon_a = ''A'', Read_ID_a = ''r2'', Dirichlet_Assignment = 0\<rparr>,
        \<lparr>Taxon_a = ''B'', Read_ID_a = ''r2'', Dirichlet_Assignment = 1\<rparr>]\<rparr>) \<and>
   ''Dark_Matter'' \<notin> Taxon_a ` set (content \<lparr>path = ''ts_tv.csv'', st_size = 90, content =
       [\<lparr>Taxon_a = ''A'', Read_ID_a = ''r1'', Dirichlet_Assignment = 1\<rparr>,
        \<lparr>Taxon_a = ''B'', Read_ID_a = ''r1'', Dirichlet_Assignment = 0\<rparr>,
        \<lparr>Taxon_a = ''A'', Read_ID_a = ''r2'', Dirichlet_Assignment = 0\<rparr>,
        \<lparr>Taxon_a = ''B'', Read_ID_a = ''r2'', Dirichlet_Assignment = 1\<rparr>]\<rparr>) \<and>
   (\<exists>ms. map Dirichlet_Read_Num [\<lparr>Taxon_out = ''Dark_Matter'', Mean_Posterior_Abundance = Fin (3/8),
        CI_lower_95 = Fin 0.025, CI_upper_95 = Fin 0.975,
        Minimum_Read_Num = Fin 0, Maximum_Read_Num = Fin 4,
        Dirichlet_Read_Num = Fin (2), Fisher_Exact_Pvalue = NaN\<rparr>,
      \<lparr>Taxon_out = ''A'', Mean_Posterior_Abundance = Fin (1/4),
        CI_lower_95 = Fin 0.025, CI_upper_95 = Fin 0.975,
        Minimum_Read_Num = Fin 0, Maximum_Read_Num = Fin 4,
        Dirichlet_Read_Num = Fin (1), Fisher_Exact_Pvalue = Fin (1/2)\<rparr>,
      \<lparr>Taxon_out = ''B'', Mean_Posterior_Abundance = Fin (1/4),
        CI_lower_95 = Fin 0.025, CI_upper_95 = Fin 0.975,
        Minimum_Read_Num = Fin 0, Maximum_Read_Num = Fin 4,
        Dirichlet_Read_Num = Fin (1), Fisher_Exact_Pvalue = Fin (1/4)\<rparr>,
      \<lparr>Taxon_out = ''Grey_Matter'', Mean_Posterior_Abundance = Fin (1/8),
        CI_lower_95 = Fin 0.025, CI_upper_95 = Fin 0.975,
        Minimum_Read_Num = Fin 0, Maximum_Read_Num = Fin 4,
        Dirichlet_Read_Num = Fin (0), Fisher_Exact_Pvalue = NaN\<rparr>] = map Fin ms \<and>
      read_float \<lparr>path = ''total.count'', st_size = 2, content = Some 4\<rparr> = Inr (sum_list ms))"
proof -
  have run: "calculate_dirichlet_abundances example_ppf
     \<lparr>path = ''ts_tv.csv'', st_size = 90, content =
       [\<lparr>Taxon_a = ''A'', Read_ID_a = ''r1'', Dirichlet_Assignment = 1\<rparr>,
        \<lparr>Taxon_a = ''B'', Read_ID_a = ''r1'', Dirichlet_Assignment = 0\<rparr>,
        \<lparr>Taxon_a = ''A'', Read_ID_a = ''r2'', Dirichlet_Assignment = 0\<rparr>,
        \<lparr>Taxon_a = ''B'', Read_ID_a = ''r2'', Dirichlet_Assignment = 1\<rparr>]\<rparr>
     \<lparr>path = ''pvalues.tsv'', st_size = 20, content =
       [\<lparr>species = ''A'', pvalue = 1/2\<rparr>, \<lparr>species = ''B'', pvalue = 1/4\<rparr>]\<rparr>
     \<lparr>path = ''total.count'', st_size = 2, content = Some 4\<rparr>
   = Inr [\<lparr>Taxon_out = ''Dark_Matter'', Mean_Posterior_Abundance = Fin (3/8),
        CI_lower_95 = Fin 0.025, CI_upper_95 = Fin 0.975,
        Minimum_Read_Num = Fin 0, Maximum_Read_Num = Fin 4,
        Dirichlet_Read_Num = Fin (2), Fisher_Exact_Pvalue = NaN\<rparr>,
      \<lparr>Taxon_out = ''A'', Mean_Posterior_Abundance = Fin (1/4),
        CI_lower_95 = Fin 0.025, CI_upper_95 = Fin 0.975,
        Minimum_Read_Num = Fin 0, Maximum_Read_Num = Fin 4,
        Dirichlet_Read_Num = Fin (1), Fisher_Exact_Pvalue = Fin (1/2)\<rparr>,
      \<lparr>Taxon_out = ''B'', Mean_Posterior_Abundance = Fin (1/4),
        CI_lower_95 = Fin 0.025, CI_upper_95 = Fin 0.975,
        Minimum_Read_Num = Fin 0, Maximum_Read_Num = Fin 4,
        Dirichlet_Read_Num = Fin (1), Fisher_Exact_Pvalue = Fin (1/4)\<rparr>,
      \<lparr>Taxon_out = ''Grey_Matter'', Mean_Posterior_Abundance = Fin (1/8),
        CI_lower_95 = Fin 0.025, CI_upper_95 = Fin 0.975,
        Minimum_Read_Num = Fin 0, Maximum_Read_Num = Fin 4,
        Dirichlet_Read_Num = Fin (0), Fisher_Exact_Pvalue = NaN\<rparr>]"
    by (simp add: calculate_dirichlet_abundances_def read_csv_def read_float_def t_test_vector_def
          hmean_def squeeze_def aggregate_assignments_def groupby_sum_def group_keys_def
          get_group_def grey_matter_of_def loc_set_def nunique_def
          estimate_abundances_def init_posterior_abundance_def posterior_abundance_mean_def
          new_row_def sort_values_desc_def np_divide_def fill_row_def loc_get_def beta_interval_def
          example_ppf_def round_half_even_def Let_def)
  have reads: "Read_ID_a ` set (content \<lparr>path = ''ts_tv.csv'', st_size = 90, content =
       [\<lparr>Taxon_a = ''A'', Read_ID_a = ''r1'', Dirichlet_Assignment = 1\<rparr>,
        \<lparr>Taxon_a = ''B'', Read_ID_a = ''r1'', Dirichlet_Assignment = 0\<rparr>,
        \<lparr>Taxon_a = ''A'', Read_ID_a = ''r2'', Dirichlet_Assignment = 0\<rparr>,
        \<lparr>Taxon_a = ''B'', Read_ID_a = ''r2'', Dirichlet_Assignment = 1\<rparr>]\<rparr>) = {''r1'', ''r2''}"
    by auto
  have r1: "sum_list (map Dirichlet_Assignment (filter (\<lambda>r. Read_ID_a r = ''r1'') (content \<lparr>path = ''ts_tv.csv'', st_size = 90, content =
       [\<lparr>Taxon_a = ''A'', Read_ID_a = ''r1'', Dirichlet_Assignment = 1\<rparr>,
        \<lparr>Taxon_a = ''B'', Read_ID_a = ''r1'', Dirichlet_Assignment = 0\<rparr>,
        \<lparr>Taxon_a = ''A'', Read_ID_a = ''r2'', Dirichlet_Assignment = 0\<rparr>,
        \<lparr>Taxon_a = ''B'', Read_ID_a = ''r2'', Dirichlet_Assignment = 1\<rparr>]\<rparr>))) = 1"
    by simp
  have r2: "sum_list (map Dirichlet_Assignment (filter (\<lambda>r. Read_ID_a r = ''r2'') (content \<lparr>path = ''ts_tv.csv'', st_size = 90, content =
       [\<lparr>Taxon_a = ''A'', Read_ID_a = ''r1'', Dirichlet_Assignment = 1\<rparr>,
        \<lparr>Taxon_a = ''B'', Read_ID_a = ''r1'', Dirichlet_Assignment = 0\<rparr>,
        \<lparr>Taxon_a = ''A'', Read_ID_a = ''r2'', Dirichlet_Assignment = 0\<rparr>,
        \<lparr>Taxon_a = ''B'', Read_ID_a = ''r2'', Dirichlet_Assignment = 1\<rparr>]\<rparr>))) = 1"
    by simp
  have sums: "\<forall>k\<in>Read_ID_a ` set (content \<lparr>path = ''ts_tv.csv'', st_size = 90, content =
       [\<lparr>Taxon_a = ''A'', Read_ID_a = ''r1'', Dirichlet_Assignment = 1\<rparr>,
        \<lparr>Taxon_a = ''B'', Read_ID_a = ''r1'', Dirichlet_Assignment = 0\<rparr>,
        \<lparr>Taxon_a = ''A'', Read_ID_a = ''r2'', Dirichlet_Assignment = 0\<rparr>,
        \<lparr>Taxon_a = ''B'', Read_ID_a = ''r2'', Dirichlet_Assignment = 1\<rparr>]\<rparr>).
      sum_list (map Dirichlet_Assignment (filter (\<lambda>r. Read_ID_a r = k) (content \<lparr>path = ''ts_tv.csv'', st_size = 90, content =
       [\<lparr>Taxon_a = ''A'', Read_ID_a = ''r1'', Dirichlet_Assignment = 1\<rparr>,
        \<lparr>Taxon_a = ''B'', Read_ID_a = ''r1'', Dirichlet_Assignment = 0\<rparr>,
        \<lparr>Taxon_a = ''A'', Read_ID_a = ''r2'', Dirichlet_Assignment = 0\<rparr>,
        \<lparr>Taxon_a = ''B'', Read_ID_a = ''r2'', Dirichlet_Assignment = 1\<rparr>]\<rparr>))) = 0 \<or>
      sum_list (map Dirichlet_Assignment (filter (\<lambda>r. Read_ID_a r = k) (content \<lparr>path = ''ts_tv.csv'', st_size = 90, content =
       [\<lparr>Taxon_a = ''A'', Read_ID_a = ''r1'', Dirichlet_Assignment = 1\<rparr>,
        \<lparr>Taxon_a = ''B'', Read_ID_a = ''r1'', Dirichlet_Assignment = 0\<rparr>,
        \<lparr>Taxon_a = ''A'', Read_ID_a = ''r2'', Dirichlet_Assignment = 0\<rparr>,
        \<lparr>Taxon_a = ''B'', Read_ID_a = ''r2'', Dirichlet_Assignment = 1\<rparr>]\<rparr>))) = 1"
    unfolding reads using r1 r2 by blast
  have grey: "''Grey_Matter'' \<notin> Taxon_a ` set (content \<lparr>path = ''ts_tv.csv'', st_size = 90, content =
       [\<lparr>Taxon_a = ''A'', Read_ID_a = ''r1'', Dirichlet_Assignment = 1\<rparr>,
        \<lparr>Taxon_a = ''B'', Read_ID_a = ''r1'', Dirichlet_Assignment = 0\<rparr>,
        \<lparr>Taxon_a = ''A'', Read_ID_a = ''r2'', Dirichlet_Assignment = 0\<rparr>,
        \<lparr>Taxon_a = ''B'', Read_ID_a = ''r2'', Dirichlet_Assignment = 1\<rparr>]\<rparr>)"
    by simp
  have dark: "''Dark_Matter'' \<notin> Taxon_a ` set (content \<lparr>path = ''ts_tv.csv'', st_size = 90, content =
       [\<lparr>Taxon_a = ''A'', Read_ID_a = ''r1'', Dirichlet_Assignment = 1\<rparr>,
        \<lparr>Taxon_a = ''B'', Read_ID_a = ''r1'', Dirichlet_Assignment = 0\<rparr>,
        \<lparr>Taxon_a = ''A'', Read_ID_a = ''r2'', Dirichlet_Assignment = 0\<rparr>,
        \<lparr>Taxon_a = ''B'', Read_ID_a = ''r2'', Dirichlet_Assignment = 1\<rparr>]\<rparr>)"
    by simp
  show ?thesis
    by (rule conjI [OF run conjI [OF reads conjI [OF r1 conjI [OF r2 conjI [OF grey
          conjI [OF dark mass_sums_to_total [OF run sums grey dark]]]]]]])
qed

text \<open>
  Claim C4 as stated fails: read \<open>r1\<close> has the weights \<open>1/2\<close> and \<open>0\<close>, which sum to
  \<open>1/2\<close>; the total is 2 reads, and the masses of the four output rows sum to \<open>3/2\<close>.
\<close>

theorem fractional_weights_counterexample:
  "calculate_dirichlet_abundances example_ppf
     \<lparr>path = ''ts_tv.csv'', st_size = 90, content =
       [\<lparr>Taxon_a = ''A'', Read_ID_a = ''r1'', Dirichlet_Assignment = 1/2\<rparr>,
        \<lparr>Taxon_a = ''B'', Read_ID_a = ''r1'', Dirichlet_Assignment = 0\<rparr>,
        \<lparr>Taxon_a = ''A'', Read_ID_a = ''r2'', Dirichlet_Assignment = 1\<rparr>,
        \<lparr>Taxon_a = ''B'', Read_ID_a = ''r2'', Dirichlet_Assignment = 0\<rparr>]\<rparr>
     \<lparr>path = ''pvalues.tsv'', st_size = 20, content =
       [\<lparr>species = ''A'', pvalue = 1/2\<rparr>, \<lparr>species = ''B'', pvalue = 1/4\<rparr>]\<rparr>
     \<lparr>path = ''total.count'', st_size = 2, content = Some 2\<rparr>
   = Inr [\<lparr>Taxon_out = ''A'', Mean_Posterior_Abundance = Fin (5/11),
        CI_lower_95 = Fin 0.025, CI_upper_95 = Fin 0.975,
        Minimum_Read_Num = Fin 0, Maximum_Read_Num = Fin 1,
        Dirichlet_Read_Num = Fin (3/2), Fisher_Exact_Pvalue = Fin (1/2)\<rparr>,
      \<lparr>Taxon_out = ''B'', Mean_Posterior_Abundance = Fin (2/11),
        CI_lower_95 = Fin 0.025, CI_upper_95 = Fin 0.975,
        Minimum_Read_Num = Fin 0, Maximum_Read_Num = Fin 1,
        Dirichlet_Read_Num = Fin (0), Fisher_Exact_Pvalue = Fin (1/4)\<rparr>,
      \<lparr>Taxon_out = ''Grey_Matter'', Mean_Posterior_Abundance = Fin (2/11),
        CI_lower_95 = Fin 0.025, CI_upper_95 = Fin 0.975,
        Minimum_Read_Num = Fin 0, Maximum_Read_Num = Fin 1,
        Dirichlet_Read_Num = Fin (0), Fisher_Exact_Pvalue = NaN\<rparr>,
      \<lparr>Taxon_out = ''Dark_Matter'', Mean_Posterior_Abundance = Fin (2/11),
        CI_lower_95 = Fin 0.025, CI_upper_95 = Fin 0.975,
        Minimum_Read_Num = Fin 0, Maximum_Read_Num = Fin 1,
        Dirichlet_Read_Num = Fin (0), Fisher_Exact_Pvalue = NaN\<rparr>] \<and>
   map Dirichlet_Read_Num [\<lparr>Taxon_out = ''A'', Mean_Posterior_Abundance = Fin (5/11),
        CI_lower_95 = Fin 0.025, CI_upper_95 = Fin 0.975,
        Minimum_Read_Num = Fin 0, Maximum_Read_Num = Fin 1,
        Dirichlet_Read_Num = Fin (3/2), Fisher_Exact_Pvalue = Fin (1/2)\<rparr>,
      \<lparr>Taxon_out = ''B'', Mean_Posterior_Abundance = Fin (2/11),
        CI_lower_95 = Fin 0.025, CI_upper_95 = Fin 0.975,
        Minimum_Read_Num = Fin 0, Maximum_Read_Num = Fin 1,
        Dirichlet_Read_Num = Fin (0), Fisher_Exact_Pvalue = Fin (1/4)\<rparr>,
      \<lparr>Taxon_out = ''Grey_Matter'', Mean_Posterior_Abundance = Fin (2/11),
        CI_lower_95 = Fin 0.025, CI_upper_95 = Fin 0.975,
        Minimum_Read_Num = Fin 0, Maximum_Read_Num = Fin 1,
        Dirichlet_Read_Num = Fin (0), Fisher_Exact_Pvalue = NaN\<rparr>,
      \<lparr>Taxon_out = ''Dark_Matter'', Mean_Posterior_Abundance = Fin (2/11),
        CI_lower_95 = Fin 0.025, CI_upper_95 = Fin 0.975,
        Minimum_Read_Num = Fin 0, Maximum_Read_Num = Fin 1,
        Dirichlet_Read_Num = Fin (0), Fisher_Exact_Pvalue = NaN\<rparr>] = map Fin [3/2, 0, 0, 0] \<and>
   sum_list [3/2, 0, 0, 0] \<noteq> (2::real)"
  by (simp add: calculate_dirichlet_abundances_def read_csv_def read_float_def t_test_vector_def
          hmean_def squeeze_def aggregate_assignments_def groupby_sum_def group_keys_def
          get_group_def grey_matter_of_def loc_set_def nunique_def
          estimate_abundances_def init_posterior_abundance_def posterior_abundance_mean_def
          new_row_def sort_values_desc_def np_divide_def fill_row_def loc_get_def beta_interval_def
          example_ppf_def round_half_even_def Let_def)

subsection \<open>The mass of the dark matter\<close>





text \<open>
  With a whole number as the total the deficit is at least one read, the first shape
  parameter \<open>a\<^sub>i + 1\<close> of the \<open>Dark_Matter\<close> row is not positive, its interval is nan, and
  the run ends in the \<open>ValueError\<close> of \<open>round\<close> on line 107: two aligned reads and a total of
  one read.
\<close>

lemma whole_total_deficit:
  "calculate_dirichlet_abundances example_ppf
     \<lparr>path = ''ts_tv.csv'', st_size = 90, content =
       [\<lparr>Taxon_a = ''A'', Read_ID_a = ''r1'', Dirichlet_Assignment = 1\<rparr>,
        \<lparr>Taxon_a = ''B'', Read_ID_a = ''r1'', Dirichlet_Assignment = 0\<rparr>,
        \<lparr>Taxon_a = ''A'', Read_ID_a = ''r2'', Dirichlet_Assignment = 0\<rparr>,
        \<lparr>Taxon_a = ''B'', Read_ID_a = ''r2'', Dirichlet_Assignment = 1\<rparr>]\<rparr>
     \<lparr>path = ''pvalues.tsv'', st_size = 20, content =
       [\<lparr>species = ''A'', pvalue = 1/2\<rparr>, \<lparr>species = ''B'', pvalue = 1/4\<rparr>]\<rparr>
     \<lparr>path = ''total.count'', st_size = 2, content = Some 1\<rparr>
   = Inl (ValueError ''cannot convert float NaN to integer'')"
  by (simp add: calculate_dirichlet_abundances_def read_csv_def read_float_def t_test_vector_def
          hmean_def squeeze_def aggregate_assignments_def groupby_sum_def group_keys_def
          get_group_def grey_matter_of_def loc_set_def nunique_def
          estimate_abundances_def init_posterior_abundance_def posterior_abundance_mean_def
          new_row_def sort_values_desc_def np_divide_def fill_row_def loc_get_def beta_interval_def
          example_ppf_def round_half_even_def Let_def)

subsection \<open>The significance scores\<close>

lemma hmean_Inr:
  assumes "hmean ps = Inr h"
  shows "h = (if 0 \<in> set ps then 0 else real (length ps) / (\<Sum>x\<leftarrow>ps. 1 / x))"
  using assms by (auto simp: hmean_def split: if_splits)

lemma hmean_groups_Inr:
  assumes "hmean_groups tbl ks = Inr s"
  shows "map fst s = ks \<and>
         (\<forall>p\<in>set s. hmean (map pvalue (get_group species (fst p) tbl)) = Inr (snd p))"
  using assms
proof (induction ks arbitrary: s)
  case Nil
  then show ?case by simp
next
  case (Cons k ks)
  from Cons.prems obtain h s' where h: "hmean (map pvalue (get_group species k tbl)) = Inr h"
    and s': "hmean_groups tbl ks = Inr s'" and s: "s = (k, h) # s'"
    by (auto split: sum.splits)
  show ?case using Cons.IH [OF s'] h s by simp
qed

lemma t_test_vector_Inr:
  assumes t: "t_test_vector tbl = Inr t" and look: "map_of t name = Some p"
  shows "\<exists>s. hmean_groups tbl (group_keys species tbl) = Inr s \<and>
             t = loc_set ''Grey_Matter'' NaN
                   (loc_set ''Dark_Matter'' NaN (map (\<lambda>(k, h). (k, Fin h)) s))"
proof -
  from t obtain s where s: "hmean_groups tbl (group_keys species tbl) = Inr s"
    by (auto simp: t_test_vector_def split: sum.splits)
  show ?thesis
  proof (cases "squeeze s")
    case (Scalar v)
    then show ?thesis using t s by (simp add: t_test_vector_def)
  next
    case (Series s')
    then have "s' = s" by (simp add: squeeze_Series)
    then show ?thesis using t s Series by (simp add: t_test_vector_def)
  next
    case EmptyFrame
    then have "t = []" using t s by (simp add: t_test_vector_def)
    then show ?thesis using look by simp
  qed
qed

lemma t_test_vector_lookup:
  assumes t: "t_test_vector tbl = Inr t" and look: "map_of t name = Some p"
  shows "(name = ''Dark_Matter'' \<or> name = ''Grey_Matter'' \<longrightarrow> p = NaN) \<and>
         (name \<noteq> ''Dark_Matter'' \<and> name \<noteq> ''Grey_Matter'' \<longrightarrow>
            name \<in> species ` set tbl \<and>
            (\<exists>h. p = Fin h \<and> hmean (map pvalue (get_group species name tbl)) = Inr h))"
proof -
  obtain s where s: "hmean_groups tbl (group_keys species tbl) = Inr s"
    and t_eq: "t = loc_set ''Grey_Matter'' NaN
                     (loc_set ''Dark_Matter'' NaN (map (\<lambda>(k, h). (k, Fin h)) s))"
    using t_test_vector_Inr [OF t look] by blast
  have m: "map_of t = (map_of (map (\<lambda>(k, h). (k, Fin h)) s))(''Dark_Matter'' \<mapsto> NaN,
                        ''Grey_Matter'' \<mapsto> NaN)"
    by (simp add: t_eq map_of_loc_set)
  have keys: "map fst s = group_keys species tbl"
    and vals: "\<forall>q\<in>set s. hmean (map pvalue (get_group species (fst q) tbl)) = Inr (snd q)"
    using hmean_groups_Inr [OF s] by simp_all
  show ?thesis
  proof (intro conjI impI)
    assume "name = ''Dark_Matter'' \<or> name = ''Grey_Matter''"
    then show "p = NaN" using look m by auto
  next
    assume n: "name \<noteq> ''Dark_Matter'' \<and> name \<noteq> ''Grey_Matter''"
    then have "map_of (map (\<lambda>(k, h). (k, Fin h)) s) name = Some p"
      using look m by simp
    then have "(name, p) \<in> set (map (\<lambda>(k, h). (k, Fin h)) s)"
      by (rule map_of_SomeD)
    then obtain h where h: "(name, h) \<in> set s" "p = Fin h" by auto
    have "name \<in> set (map fst s)" using h(1) by force
    then show "name \<in> species ` set tbl" using keys by simp
    show "\<exists>h. p = Fin h \<and> hmean (map pvalue (get_group species name tbl)) = Inr h"
      using vals h by force
  qed
qed

lemma fill_row_pvalue:
  assumes "fill_row ppf t a row = Inr row'"
  shows "map_of t (Taxon_out row') = Some (Fisher_Exact_Pvalue row')"
  using fill_row_Inr [OF assms] by auto

text \<open>
  Claim C8, as the code has it. Take a p-value table without negative values. In the
  output of a run that returns, the rows named \<open>Dark_Matter\<close> and \<open>Grey_Matter\<close> have the
  score nan, and every other row belongs to a taxon for which the p-value table holds at
  least one p-value, and has the harmonic mean of the p-values of that taxon as its
  score: their number over the sum of their reciprocals, and 0 when one of them is 0. (A
  run in which a taxon of the abundance table has no p-value does not return rows.)
\<close>

theorem significance_scores:
  assumes run: "calculate_dirichlet_abundances ppf f pf tot = Inr rows"
    and row: "row \<in> set rows"
    and nonneg: "\<forall>r\<in>set (content pf). 0 \<le> pvalue r"
  shows "(Taxon_out row = ''Dark_Matter'' \<or> Taxon_out row = ''Grey_Matter''
            \<longrightarrow> Fisher_Exact_Pvalue row = NaN) \<and>
         (Taxon_out row \<noteq> ''Dark_Matter'' \<and> Taxon_out row \<noteq> ''Grey_Matter'' \<longrightarrow>
            filter (\<lambda>r. species r = Taxon_out row) (content pf) \<noteq> [] \<and>
            Fisher_Exact_Pvalue row =
              Fin (if 0 \<in> pvalue ` set (filter (\<lambda>r. species r = Taxon_out row) (content pf)) then 0
                   else real (length (filter (\<lambda>r. species r = Taxon_out row) (content pf)))
                        / (\<Sum>r\<leftarrow>filter (\<lambda>r. species r = Taxon_out row) (content pf). 1 / pvalue r)))"
proof -
  obtain t a where t: "t_test_vector (content pf) = Inr t"
    and est: "estimate_abundances ppf t a = Inr rows"
    using calculate_dirichlet_abundances_Inr [OF run] by blast
  obtain k ai where "fill_row ppf t a
      (new_row k (np_divide (ai + 1) (sum_list (map snd a) + real (length a)))) = Inr row"
    using estimate_rows_origin [OF est] row by blast
  then have look: "map_of t (Taxon_out row) = Some (Fisher_Exact_Pvalue row)"
    by (rule fill_row_pvalue)
  note L = t_test_vector_lookup [OF t look]
  show ?thesis
  proof (intro conjI impI)
    assume "Taxon_out row = ''Dark_Matter'' \<or> Taxon_out row = ''Grey_Matter''"
    then show "Fisher_Exact_Pvalue row = NaN" using L by blast
  next
    assume n: "Taxon_out row \<noteq> ''Dark_Matter'' \<and> Taxon_out row \<noteq> ''Grey_Matter''"
    then obtain h where mem: "Taxon_out row \<in> species ` set (content pf)"
      and h: "Fisher_Exact_Pvalue row = Fin h"
        "hmean (map pvalue (get_group species (Taxon_out row) (content pf))) = Inr h"
      using L by blast
    have hv: "h = (if 0 \<in> set (map pvalue (get_group species (Taxon_out row) (content pf))) then 0
                   else real (length (map pvalue (get_group species (Taxon_out row) (content pf))))
                        / (\<Sum>x\<leftarrow>map pvalue (get_group species (Taxon_out row) (content pf)). 1 / x))"
      using h(2) by (rule hmean_Inr)
    show "filter (\<lambda>r. species r = Taxon_out row) (content pf) \<noteq> []"
      using mem by (auto simp: filter_empty_conv)
    show "Fisher_Exact_Pvalue row =
              Fin (if 0 \<in> pvalue ` set (filter (\<lambda>r. species r = Taxon_out row) (content pf)) then 0
                   else real (length (filter (\<lambda>r. species r = Taxon_out row) (content pf)))
                        / (\<Sum>r\<leftarrow>filter (\<lambda>r. species r = Taxon_out row) (content pf). 1 / pvalue r))"
      unfolding h(1) hv by (simp add: get_group_def comp_def)
  qed
qed

theorem significance_scores_witness:
  "calculate_dirichlet_abundances example_ppf
     \<lparr>path = ''ts_tv.csv'', st_size = 90, content =
       [\<lparr>Taxon_a = ''A'', Read_ID_a = ''r1'', Dirichlet_Assignment = 1\<rparr>,
        \<lparr>Taxon_a = ''B'', Read_ID_a = ''r1'', Dirichlet_Assignment = 0\<rparr>,
        \<lparr>Taxon_a = ''A'', Read_ID_a = ''r2'', Dirichlet_Assignment = 0\<rparr>,
        \<lparr>Taxon_a = ''B'', Read_ID_a = ''r2'', Dirichlet_Assignment = 1\<rparr>]\<rparr>
     \<lparr>path = ''pvalues.tsv'', st_size = 20, content =
       [\<lparr>species = ''A'', pvalue = 1/2\<rparr>, \<lparr>species = ''A'', pvalue = 1/4\<rparr>, \<lparr>species = ''B'', pvalue = 0\<rparr>]\<rparr>
     \<lparr>path = ''total.count'', st_size = 2, content = Some 4\<rparr>
   = Inr [\<lparr>Taxon_out = ''Dark_Matter'', Mean_Posterior_Abundance = Fin (3/8),
        CI_lower_95 = Fin 0.025, CI_upper_95 = Fin 0.975,
        Minimum_Read_Num = Fin 0, Maximum_Read_Num = Fin 4,
        Dirichlet_Read_Num = Fin (2), Fisher_Exact_Pvalue = NaN\<rparr>,
      \<lparr>Taxon_out = ''A'', Mean_Posterior_Abundance = Fin (1/4),
        CI_lower_95 = Fin 0.025, CI_upper_95 = Fin 0.975,
        Minimum_Read_Num = Fin 0, Maximum_Read_Num = Fin 4,
        Dirichlet_Read_Num = Fin (1), Fisher_Exact_Pvalue = Fin (1/3)\<rparr>,
      \<lparr>Taxon_out = ''B'', Mean_Posterior_Abundance = Fin (1/4),
        CI_lower_95 = Fin 0.025, CI_upper_95 = Fin 0.975,
        Minimum_Read_Num = Fin 0, Maximum_Read_Num = Fin 4,
        Dirichlet_Read_Num = Fin (1), Fisher_Exact_Pvalue = Fin 0\<rparr>,
      \<lparr>Taxon_out = ''Grey_Matter'', Mean_Posterior_Abundance = Fin (1/8),
        CI_lower_95 = Fin 0.025, CI_upper_95 = Fin 0.975,
        Minimum_Read_Num = Fin 0, Maximum_Read_Num = Fin 4,
        Dirichlet_Read_Num = Fin (0), Fisher_Exact_Pvalue = NaN\<rparr>] \<and>
   list_all (\<lambda>r. 0 \<le> pvalue r) (content
     \<lparr>path = ''pvalues.tsv'', st_size = 20, content =
       [\<lparr>species = ''A'', pvalue = 1/2\<rparr>, \<lparr>species = ''A'', pvalue = 1/4\<rparr>, \<lparr>species = ''B'', pvalue = 0\<rparr>]\<rparr>) \<and>
   \<lparr>Taxon_out = ''A'', Mean_Posterior_Abundance = Fin (1/4),
        CI_lower_95 = Fin 0.025, CI_upper_95 = Fin 0.975,
        Minimum_Read_Num = Fin 0, Maximum_Read_Num = Fin 4,
        Dirichlet_Read_Num = Fin (1), Fisher_Exact_Pvalue = Fin (1/3)\<rparr>
     \<in> set [\<lparr>Taxon_out = ''Dark_Matter'', Mean_Posterior_Abundance = Fin (3/8),
        CI_lower_95 = Fin 0.025, CI_upper_95 = Fin 0.975,
        Minimum_Read_Num = Fin 0, Maximum_Read_Num = Fin 4,
        Dirichlet_Read_Num = Fin (2), Fisher_Exact_Pvalue = NaN\<rparr>,
      \<lparr>Taxon_out = ''A'', Mean_Posterior_Abundance = Fin (1/4),
        CI_lower_95 = Fin 0.025, CI_upper_95 = Fin 0.975,
        Minimum_Read_Num = Fin 0, Maximum_Read_Num = Fin 4,
        Dirichlet_Read_Num = Fin (1), Fisher_Exact_Pvalue = Fin (1/3)\<rparr>,
      \<lparr>Taxon_out = ''B'', Mean_Posterior_Abundance = Fin (1/4),
        CI_lower_95 = Fin 0.025, CI_upper_95 = Fin 0.975,
        Minimum_Read_Num = Fin 0, Maximum_Read_Num = Fin 4,
        Dirichlet_Read_Num = Fin (1), Fisher_Exact_Pvalue = Fin 0\<rparr>,
      \<lparr>Taxon_out = ''Grey_Matter'', Mean_Posterior_Abundance = Fin (1/8),
        CI_lower_95 = Fin 0.025, CI_upper_95 = Fin 0.975,
        Minimum_Read_Num = Fin 0, Maximum_Read_Num = Fin 4,
        Dirichlet_Read_Num = Fin (0), Fisher_Exact_Pvalue = NaN\<rparr>] \<and>
   Taxon_out (\<lparr>Taxon_out = ''A'', Mean_Posterior_Abundance = Fin (1/4),
        CI_lower_95 = Fin 0.025, CI_upper_95 = Fin 0.975,
        Minimum_Read_Num = Fin 0, Maximum_Read_Num = Fin 4,
        Dirichlet_Read_Num = Fin (1), Fisher_Exact_Pvalue = Fin (1/3)\<rparr>) \<noteq> ''Dark_Matter'' \<and>
   Taxon_out (\<lparr>Taxon_out = ''A'', Mean_Posterior_Abundance = Fin (1/4),
        CI_lower_95 = Fin 0.025, CI_upper_95 = Fin 0.975,
        Minimum_Read_Num = Fin 0, Maximum_Read_Num = Fin 4,
        Dirichlet_Read_Num = Fin (1), Fisher_Exact_Pvalue = Fin (1/3)\<rparr>) \<noteq> ''Grey_Matter'' \<and>
   filter (\<lambda>r. species r = Taxon_out 
     (\<lparr>Taxon_out = ''A'', Mean_Posterior_Abundance = Fin (1/4),
        CI_lower_95 = Fin 0.025, CI_upper_95 = Fin 0.975,
        Minimum_Read_Num = Fin 0, Maximum_Read_Num = Fin 4,
        Dirichlet_Read_Num = Fin (1), Fisher_Exact_Pvalue = Fin (1/3)\<rparr>)) (content 
     \<lparr>path = ''pvalues.tsv'', st_size = 20, content =
       [\<lparr>species = ''A'', pvalue = 1/2\<rparr>, \<lparr>species = ''A'', pvalue = 1/4\<rparr>, \<lparr>species = ''B'', pvalue = 0\<rparr>]\<rparr>) \<noteq> [] \<and>
   Fisher_Exact_Pvalue 
     (\<lparr>Taxon_out = ''A'', Mean_Posterior_Abundance = Fin (1/4),
        CI_lower_95 = Fin 0.025, CI_upper_95 = Fin 0.975,
        Minimum_Read_Num = Fin 0, Maximum_Read_Num = Fin 4,
        Dirichlet_Read_Num = Fin (1), Fisher_Exact_Pvalue = Fin (1/3)\<rparr>) =
     Fin (if 0 \<in> pvalue ` set (filter (\<lambda>r. species r = Taxon_out 
     (\<lparr>Taxon_out = ''A'', Mean_Posterior_Abundance = Fin (1/4),
        CI_lower_95 = Fin 0.025, CI_upper_95 = Fin 0.975,
        Minimum_Read_Num = Fin 0, Maximum_Read_Num = Fin 4,
        Dirichlet_Read_Num = Fin (1), Fisher_Exact_Pvalue = Fin (1/3)\<rparr>)) (content 
     \<lparr>path = ''pvalues.tsv'', st_size = 20, content =
       [\<lparr>species = ''A'', pvalue = 1/2\<rparr>, \<lparr>species = ''A'', pvalue = 1/4\<rparr>, \<lparr>species = ''B'', pvalue = 0\<rparr>]\<rparr>)) then 0
          else real (length (filter (\<lambda>r. species r = Taxon_out 
     (\<lparr>Taxon_out = ''A'', Mean_Posterior_Abundance = Fin (1/4),
        CI_lower_95 = Fin 0.025, CI_upper_95 = Fin 0.975,
        Minimum_Read_Num = Fin 0, Maximum_Read_Num = Fin 4,
        Dirichlet_Read_Num = Fin (1), Fisher_Exact_Pvalue = Fin (1/3)\<rparr>)) (content 
     \<lparr>path = ''pvalues.tsv'', st_size = 20, content =
       [\<lparr>species = ''A'', pvalue = 1/2\<rparr>, \<lparr>species = ''A'', pvalue = 1/4\<rparr>, \<lparr>species = ''B'', pvalue = 0\<rparr>]\<rparr>)))
               / (\<Sum>r\<leftarrow>filter (\<lambda>r. species r = Taxon_out 
     (\<lparr>Taxon_out = ''A'', Mean_Posterior_Abundance = Fin (1/4),
        CI_lower_95 = Fin 0.025, CI_upper_95 = Fin 0.975,
        Minimum_Read_Num = Fin 0, Maximum_Read_Num = Fin 4,
        Dirichlet_Read_Num = Fin (1), Fisher_Exact_Pvalue = Fin (1/3)\<rparr>)) (content 
     \<lparr>path = ''pvalues.tsv'', st_size = 20, content =
       [\<lparr>species = ''A'', pvalue = 1/2\<rparr>, \<lparr>species = ''A'', pvalue = 1/4\<rparr>, \<lparr>species = ''B'', pvalue = 0\<rparr>]\<rparr>). 1 / pvalue r)) \<and>
   \<lparr>Taxon_out = ''Dark_Matter'', Mean_Posterior_Abundance = Fin (3/8),
        CI_lower_95 = Fin 0.025, CI_upper_95 = Fin 0.975,
        Minimum_Read_Num = Fin 0, Maximum_Read_Num = Fin 4,
        Dirichlet_Read_Num = Fin (2), Fisher_Exact_Pvalue = NaN\<rparr>
     \<in> set [\<lparr>Taxon_out = ''Dark_Matter'', Mean_Posterior_Abundance = Fin (3/8),
        CI_lower_95 = Fin 0.025, CI_upper_95 = Fin 0.975,
        Minimum_Read_Num = Fin 0, Maximum_Read_Num = Fin 4,
        Dirichlet_Read_Num = Fin (2), Fisher_Exact_Pvalue = NaN\<rparr>,
      \<lparr>Taxon_out = ''A'', Mean_Posterior_Abundance = Fin (1/4),
        CI_lower_95 = Fin 0.025, CI_upper_95 = Fin 0.975,
        Minimum_Read_Num = Fin 0, Maximum_Read_Num = Fin 4,
        Dirichlet_Read_Num = Fin (1), Fisher_Exact_Pvalue = Fin (1/3)\<rparr>,
      \<lparr>Taxon_out = ''B'', Mean_Posterior_Abundance = Fin (1/4),
        CI_lower_95 = Fin 0.025, CI_upper_95 = Fin 0.975,
        Minimum_Read_Num = Fin 0, Maximum_Read_Num = Fin 4,
        Dirichlet_Read_Num = Fin (1), Fisher_Exact_Pvalue = Fin 0\<rparr>,
      \<lparr>Taxon_out = ''Grey_Matter'', Mean_Posterior_Abundance = Fin (1/8),
        CI_lower_95 = Fin 0.025, CI_upper_95 = Fin 0.975,
        Minimum_Read_Num = Fin 0, Maximum_Read_Num = Fin 4,
        Dirichlet_Read_Num = Fin (0), Fisher_Exact_Pvalue = NaN\<rparr>] \<and>
   Taxon_out (\<lparr>Taxon_out = ''Dark_Matter'', Mean_Posterior_Abundance = Fin (3/8),
        CI_lower_95 = Fin 0.025, CI_upper_95 = Fin 0.975,
        Minimum_Read_Num = Fin 0, Maximum_Read_Num = Fin 4,
        Dirichlet_Read_Num = Fin (2), Fisher_Exact_Pvalue = NaN\<rparr>) = ''Dark_Matter'' \<and>
   Fisher_Exact_Pvalue (\<lparr>Taxon_out = ''Dark_Matter'', Mean_Posterior_Abundance = Fin (3/8),
        CI_lower_95 = Fin 0.025, CI_upper_95 = Fin 0.975,
        Minimum_Read_Num = Fin 0, Maximum_Read_Num = Fin 4,
        Dirichlet_Read_Num = Fin (2), Fisher_Exact_Pvalue = NaN\<rparr>) = NaN"
proof -
  have run: "calculate_dirichlet_abundances example_ppf
     \<lparr>path = ''ts_tv.csv'', st_size = 90, content =
       [\<lparr>Taxon_a = ''A'', Read_ID_a = ''r1'', Dirichlet_Assignment = 1\<rparr>,
        \<lparr>Taxon_a = ''B'', Read_ID_a = ''r1'', Dirichlet_Assignment = 0\<rparr>,
        \<lparr>Taxon_a = ''A'', Read_ID_a = ''r2'', Dirichlet_Assignment = 0\<rparr>,
        \<lparr>Taxon_a = ''B'', Read_ID_a = ''r2'', Dirichlet_Assignment = 1\<rparr>]\<rparr>
     \<lparr>path = ''pvalues.tsv'', st_size = 20, content =
       [\<lparr>species = ''A'', pvalue = 1/2\<rparr>, \<lparr>species = ''A'', pvalue = 1/4\<rparr>, \<lparr>species = ''B'', pvalue = 0\<rparr>]\<rparr>
     \<lparr>path = ''total.count'', st_size = 2, content = Some 4\<rparr>
   = Inr [\<lparr>Taxon_out = ''Dark_Matter'', Mean_Posterior_Abundance = Fin (3/8),
        CI_lower_95 = Fin 0.025, CI_upper_95 = Fin 0.975,
        Minimum_Read_Num = Fin 0, Maximum_Read_Num = Fin 4,
        Dirichlet_Read_Num = Fin (2), Fisher_Exact_Pvalue = NaN\<rparr>,
      \<lparr>Taxon_out = ''A'', Mean_Posterior_Abundance = Fin (1/4),
        CI_lower_95 = Fin 0.025, CI_upper_95 = Fin 0.975,
        Minimum_Read_Num = Fin 0, Maximum_Read_Num = Fin 4,
        Dirichlet_Read_Num = Fin (1), Fisher_Exact_Pvalue = Fin (1/3)\<rparr>,
      \<lparr>Taxon_out = ''B'', Mean_Posterior_Abundance = Fin (1/4),
        CI_lower_95 = Fin 0.025, CI_upper_95 = Fin 0.975,
        Minimum_Read_Num = Fin 0, Maximum_Read_Num = Fin 4,
        Dirichlet_Read_Num = Fin (1), Fisher_Exact_Pvalue = Fin 0\<rparr>,
      \<lparr>Taxon_out = ''Grey_Matter'', Mean_Posterior_Abundance = Fin (1/8),
        CI_lower_95 = Fin 0.025, CI_upper_95 = Fin 0.975,
        Minimum_Read_Num = Fin 0, Maximum_Read_Num = Fin 4,
        Dirichlet_Read_Num = Fin (0), Fisher_Exact_Pvalue = NaN\<rparr>]"
    by (simp add: calculate_dirichlet_abundances_def read_csv_def read_float_def t_test_vector_def
          hmean_def squeeze_def aggregate_assignments_def groupby_sum_def group_keys_def
          get_group_def grey_matter_of_def loc_set_def nunique_def
          estimate_abundances_def init_posterior_abundance_def posterior_abundance_mean_def
          new_row_def sort_values_desc_def np_divide_def fill_row_def loc_get_def beta_interval_def
          example_ppf_def round_half_even_def Let_def)
  have nonneg: "\<forall>r\<in>set (content
     \<lparr>path = ''pvalues.tsv'', st_size = 20, content =
       [\<lparr>species = ''A'', pvalue = 1/2\<rparr>, \<lparr>species = ''A'', pvalue = 1/4\<rparr>, \<lparr>species = ''B'', pvalue = 0\<rparr>]\<rparr>). 0 \<le> pvalue r"
    by simp
  have mem: "\<lparr>Taxon_out = ''A'', Mean_Posterior_Abundance = Fin (1/4),
        CI_lower_95 = Fin 0.025, CI_upper_95 = Fin 0.975,
        Minimum_Read_Num = Fin 0, Maximum_Read_Num = Fin 4,
        Dirichlet_Read_Num = Fin (1), Fisher_Exact_Pvalue = Fin (1/3)\<rparr>
     \<in> set [\<lparr>Taxon_out = ''Dark_Matter'', Mean_Posterior_Abundance = Fin (3/8),
        CI_lower_95 = Fin 0.025, CI_upper_95 = Fin 0.975,
        Minimum_Read_Num = Fin 0, Maximum_Read_Num = Fin 4,
        Dirichlet_Read_Num = Fin (2), Fisher_Exact_Pvalue = NaN\<rparr>,
      \<lparr>Taxon_out = ''A'', Mean_Posterior_Abundance = Fin (1/4),
        CI_lower_95 = Fin 0.025, CI_upper_95 = Fin 0.975,
        Minimum_Read_Num = Fin 0, Maximum_Read_Num = Fin 4,
        Dirichlet_Read_Num = Fin (1), Fisher_Exact_Pvalue = Fin (1/3)\<rparr>,
      \<lparr>Taxon_out = ''B'', Mean_Posterior_Abundance = Fin (1/4),
        CI_lower_95 = Fin 0.025, CI_upper_95 = Fin 0.975,
        Minimum_Read_Num = Fin 0, Maximum_Read_Num = Fin 4,
        Dirichlet_Read_Num = Fin (1), Fisher_Exact_Pvalue = Fin 0\<rparr>,
      \<lparr>Taxon_out = ''Grey_Matter'', Mean_Posterior_Abundance = Fin (1/8),
        CI_lower_95 = Fin 0.025, CI_upper_95 = Fin 0.975,
        Minimum_Read_Num = Fin 0, Maximum_Read_Num = Fin 4,
        Dirichlet_Read_Num = Fin (0), Fisher_Exact_Pvalue = NaN\<rparr>]"
    by simp
  have memD: "\<lparr>Taxon_out = ''Dark_Matter'', Mean_Posterior_Abundance = Fin (3/8),
        CI_lower_95 = Fin 0.025, CI_upper_95 = Fin 0.975,
        Minimum_Read_Num = Fin 0, Maximum_Read_Num = Fin 4,
        Dirichlet_Read_Num = Fin (2), Fisher_Exact_Pvalue = NaN\<rparr>
     \<in> set [\<lparr>Taxon_out = ''Dark_Matter'', Mean_Posterior_Abundance = Fin (3/8),
        CI_lower_95 = Fin 0.025, CI_upper_95 = Fin 0.975,
        Minimum_Read_Num = Fin 0, Maximum_Read_Num = Fin 4,
        Dirichlet_Read_Num = Fin (2), Fisher_Exact_Pvalue = NaN\<rparr>,
      \<lparr>Taxon_out = ''A'', Mean_Posterior_Abundance = Fin (1/4),
        CI_lower_95 = Fin 0.025, CI_upper_95 = Fin 0.975,
        Minimum_Read_Num = Fin 0, Maximum_Read_Num = Fin 4,
        Dirichlet_Read_Num = Fin (1), Fisher_Exact_Pvalue = Fin (1/3)\<rparr>,
      \<lparr>Taxon_out = ''B'', Mean_Posterior_Abundance = Fin (1/4),
        CI_lower_95 = Fin 0.025, CI_upper_95 = Fin 0.975,
        Minimum_Read_Num = Fin 0, Maximum_Read_Num = Fin 4,
        Dirichlet_Read_Num = Fin (1), Fisher_Exact_Pvalue = Fin 0\<rparr>,
      \<lparr>Taxon_out = ''Grey_Matter'', Mean_Posterior_Abundance = Fin (1/8),
        CI_lower_95 = Fin 0.025, CI_upper_95 = Fin 0.975,
        Minimum_Read_Num = Fin 0, Maximum_Read_Num = Fin 4,
        Dirichlet_Read_Num = Fin (0), Fisher_Exact_Pvalue = NaN\<rparr>]"
    by simp
  show ?thesis
    using run mem memD significance_scores [OF run mem nonneg]
      significance_scores [OF run memD nonneg]
    by simp
qed

text \<open>
  Claim C8 as stated fails: taxon \<open>B\<close> is in the assignment table and has no p-value in
  the p-value table; it gets no nan score, the run ends in \<open>KeyError\<close>.
\<close>

theorem missing_pvalue_counterexample:
  "calculate_dirichlet_abundances example_ppf
     \<lparr>path = ''ts_tv.csv'', st_size = 90, content =
       [\<lparr>Taxon_a = ''A'', Read_ID_a = ''r1'', Dirichlet_Assignment = 1\<rparr>,
        \<lparr>Taxon_a = ''B'', Read_ID_a = ''r1'', Dirichlet_Assignment = 0\<rparr>,
        \<lparr>Taxon_a = ''A'', Read_ID_a = ''r2'', Dirichlet_Assignment = 0\<rparr>,
        \<lparr>Taxon_a = ''B'', Read_ID_a = ''r2'', Dirichlet_Assignment = 1\<rparr>]\<rparr>
     \<lparr>path = ''pvalues.tsv'', st_size = 20, content =
       [\<lparr>species = ''A'', pvalue = 1/2\<rparr>, \<lparr>species = ''C'', pvalue = 1/4\<rparr>]\<rparr>
     \<lparr>path = ''total.count'', st_size = 2, content = Some 4\<rparr>
   = Inl (KeyError ''B'')"
  by (simp add: calculate_dirichlet_abundances_def read_csv_def read_float_def t_test_vector_def
          hmean_def squeeze_def aggregate_assignments_def groupby_sum_def group_keys_def
          get_group_def grey_matter_of_def loc_set_def nunique_def
          estimate_abundances_def init_posterior_abundance_def posterior_abundance_mean_def
          new_row_def sort_values_desc_def np_divide_def fill_row_def loc_get_def beta_interval_def
          example_ppf_def round_half_even_def Let_def)

subsection \<open>Taxa named like the pseudo-taxa\<close>

text \<open>
  Claim C10. A table may hold a real taxon called \<open>Grey_Matter\<close> (or \<open>Dark_Matter\<close>). In
  the two runs below that taxon has the assignment mass 1 and the harmonic mean p-value
  \<open>1/4\<close>; the run returns, and the output row of that name carries the pseudo-taxon's
  mass (0 reads of grey matter, 2 reads of dark matter) and the score nan.
\<close>

theorem pseudo_taxon_name_collision:
  "sum_list (map Dirichlet_Assignment (get_group Taxon_a ''Grey_Matter''
       [\<lparr>Taxon_a = ''A'', Read_ID_a = ''r1'', Dirichlet_Assignment = 1\<rparr>,
        \<lparr>Taxon_a = ''Grey_Matter'', Read_ID_a = ''r1'', Dirichlet_Assignment = 0\<rparr>,
        \<lparr>Taxon_a = ''A'', Read_ID_a = ''r2'', Dirichlet_Assignment = 0\<rparr>,
        \<lparr>Taxon_a = ''Grey_Matter'', Read_ID_a = ''r2'', Dirichlet_Assignment = 1\<rparr>])) = 1 \<and>
   hmean (map pvalue (get_group species ''Grey_Matter'' (content
     \<lparr>path = ''pvalues.tsv'', st_size = 20, content =
       [\<lparr>species = ''A'', pvalue = 1/2\<rparr>, \<lparr>species = ''Grey_Matter'', pvalue = 1/4\<rparr>]\<rparr>))) = Inr (1/4) \<and>
   calculate_dirichlet_abundances example_ppf
     \<lparr>path = ''ts_tv.csv'', st_size = 90, content =
       [\<lparr>Taxon_a = ''A'', Read_ID_a = ''r1'', Dirichlet_Assignment = 1\<rparr>,
        \<lparr>Taxon_a = ''Grey_Matter'', Read_ID_a = ''r1'', Dirichlet_Assignment = 0\<rparr>,
        \<lparr>Taxon_a = ''A'', Read_ID_a = ''r2'', Dirichlet_Assignment = 0\<rparr>,
        \<lparr>Taxon_a = ''Grey_Matter'', Read_ID_a = ''r2'', Dirichlet_Assignment = 1\<rparr>]\<rparr>
     \<lparr>path = ''pvalues.tsv'', st_size = 20, content =
       [\<lparr>species = ''A'', pvalue = 1/2\<rparr>, \<lparr>species = ''Grey_Matter'', pvalue = 1/4\<rparr>]\<rparr>
     \<lparr>path = ''total.count'', st_size = 2, content = Some 4\<rparr>
   = Inr [\<lparr>Taxon_out = ''Dark_Matter'', Mean_Posterior_Abundance = Fin (1/2),
        CI_lower_95 = Fin 0.025, CI_upper_95 = Fin 0.975,
        Minimum_Read_Num = Fin 0, Maximum_Read_Num = Fin 3,
        Dirichlet_Read_Num = Fin (2), Fisher_Exact_Pvalue = NaN\<rparr>,
      \<lparr>Taxon_out = ''A'', Mean_Posterior_Abundance = Fin (1/3),
        CI_lower_95 = Fin 0.025, CI_upper_95 = Fin 0.975,
        Minimum_Read_Num = Fin 0, Maximum_Read_Num = Fin 3,
        Dirichlet_Read_Num = Fin (1), Fisher_Exact_Pvalue = Fin (1/2)\<rparr>,
      \<lparr>Taxon_out = ''Grey_Matter'', Mean_Posterior_Abundance = Fin (1/6),
        CI_lower_95 = Fin 0.025, CI_upper_95 = Fin 0.975,
        Minimum_Read_Num = Fin 0, Maximum_Read_Num = Fin 3,
        Dirichlet_Read_Num = Fin (0), Fisher_Exact_Pvalue = NaN\<rparr>] \<and>
   sum_list (map Dirichlet_Assignment (get_group Taxon_a ''Dark_Matter''
       [\<lparr>Taxon_a = ''A'', Read_ID_a = ''r1'', Dirichlet_Assignment = 1\<rparr>,
        \<lparr>Taxon_a = ''Dark_Matter'', Read_ID_a = ''r1'', Dirichlet_Assignment = 0\<rparr>,
        \<lparr>Taxon_a = ''A'', Read_ID_a = ''r2'', Dirichlet_Assignment = 0\<rparr>,
        \<lparr>Taxon_a = ''Dark_Matter'', Read_ID_a = ''r2'', Dirichlet_Assignment = 1\<rparr>])) = 1 \<and>
   hmean (map pvalue (get_group species ''Dark_Matter'' (content
     \<lparr>path = ''pvalues.tsv'', st_size = 20, content =
       [\<lparr>species = ''A'', pvalue = 1/2\<rparr>, \<lparr>species = ''Dark_Matter'', pvalue = 1/4\<rparr>]\<rparr>))) = Inr (1/4) \<and>
   calculate_dirichlet_abundances example_ppf
     \<lparr>path = ''ts_tv.csv'', st_size = 90, content =
       [\<lparr>Taxon_a = ''A'', Read_ID_a = ''r1'', Dirichlet_Assignment = 1\<rparr>,
        \<lparr>Taxon_a = ''Dark_Matter'', Read_ID_a = ''r1'', Dirichlet_Assignment = 0\<rparr>,
        \<lparr>Taxon_a = ''A'', Read_ID_a = ''r2'', Dirichlet_Assignment = 0\<rparr>,
        \<lparr>Taxon_a = ''Dark_Matter'', Read_ID_a = ''r2'', Dirichlet_Assignment = 1\<rparr>]\<rparr>
     \<lparr>path = ''pvalues.tsv'', st_size = 20, content =
       [\<lparr>species = ''A'', pvalue = 1/2\<rparr>, \<lparr>species = ''Dark_Matter'', pvalue = 1/4\<rparr>]\<rparr>
     \<lparr>path = ''total.count'', st_size = 2, content = Some 4\<rparr>
   = Inr [\<lparr>Taxon_out = ''Dark_Matter'', Mean_Posterior_Abundance = Fin (1/2),
        CI_lower_95 = Fin 0.025, CI_upper_95 = Fin 0.975,
        Minimum_Read_Num = Fin 0, Maximum_Read_Num = Fin 3,
        Dirichlet_Read_Num = Fin (2), Fisher_Exact_Pvalue = NaN\<rparr>,
      \<lparr>Taxon_out = ''A'', Mean_Posterior_Abundance = Fin (1/3),
        CI_lower_95 = Fin 0.025, CI_upper_95 = Fin 0.975,
        Minimum_Read_Num = Fin 0, Maximum_Read_Num = Fin 3,
        Dirichlet_Read_Num = Fin (1), Fisher_Exact_Pvalue = Fin (1/2)\<rparr>,
      \<lparr>Taxon_out = ''Grey_Matter'', Mean_Posterior_Abundance = Fin (1/6),
        CI_lower_95 = Fin 0.025, CI_upper_95 = Fin 0.975,
        Minimum_Read_Num = Fin 0, Maximum_Read_Num = Fin 3,
        Dirichlet_Read_Num = Fin (0), Fisher_Exact_Pvalue = NaN\<rparr>]"
  by (simp add: calculate_dirichlet_abundances_def read_csv_def read_float_def t_test_vector_def
          hmean_def squeeze_def aggregate_assignments_def groupby_sum_def group_keys_def
          get_group_def grey_matter_of_def loc_set_def nunique_def
          estimate_abundances_def init_posterior_abundance_def posterior_abundance_mean_def
          new_row_def sort_values_desc_def np_divide_def fill_row_def loc_get_def beta_interval_def
          example_ppf_def round_half_even_def Let_def)

end
